theory Spec2Isabelle
  imports Complex_Main "HOL-Library.Sublist"
begin

section \<open>Strings\<close>

text \<open>
  A Go string is a sequence of bytes; it is modelled as a \<^typ>\<open>string\<close> (a list of
  8-bit characters). The functions of package \<^verbatim>\<open>strings\<close> that the program calls are
  written out on such lists.
\<close>

text \<open>
  \<^verbatim>\<open>strings.HasPrefix(s, p)\<close>.
\<close>

definition HasPrefix :: "string \<Rightarrow> string \<Rightarrow> bool" where
  "HasPrefix s p = prefix p s"

text \<open>
  \<^verbatim>\<open>strings.ReplaceAll(s, old, new)\<close>: every non-overlapping occurrence of \<open>old\<close>,
  found from the left, is replaced. The program only passes non-empty patterns; for the
  empty pattern (where Go inserts \<open>new\<close> around every UTF-8 sequence) the model leaves
  the string as it is.
\<close>

function ReplaceAll :: "string \<Rightarrow> string \<Rightarrow> string \<Rightarrow> string" where
  "ReplaceAll [] old new = []"
| "ReplaceAll (c # cs) old new =
     (if old \<noteq> [] \<and> prefix old (c # cs)
      then new @ ReplaceAll (drop (length old) (c # cs)) old new
      else c # ReplaceAll cs old new)"
  by pat_completeness auto
termination
  by (relation "measure (\<lambda>(s, old, new). length s)") (auto simp: neq_Nil_conv)

text \<open>
  \<^verbatim>\<open>strings.Replace(s, old, new, 1)\<close>: only the first occurrence of a non-empty
  \<open>old\<close> is replaced.
\<close>

fun Replace1 :: "string \<Rightarrow> string \<Rightarrow> string \<Rightarrow> string" where
  "Replace1 [] old new = []"
| "Replace1 (c # cs) old new =
     (if old \<noteq> [] \<and> prefix old (c # cs)
      then new @ drop (length old) (c # cs)
      else c # Replace1 cs old new)"

text \<open>
  \<^verbatim>\<open>strings.Split(s, sep)\<close> for a non-empty separator: the pieces of \<open>s\<close> between
  the occurrences of \<open>sep\<close>, found from the left; the result always has at least one
  piece. The program only passes non-empty separators; for the empty one (where Go
  splits after every UTF-8 sequence) the model returns \<open>s\<close> as the only piece.
\<close>

function Split_from :: "string \<Rightarrow> string \<Rightarrow> string \<Rightarrow> string list" where
  "Split_from sep piece [] = [piece]"
| "Split_from sep piece (c # cs) =
     (if sep \<noteq> [] \<and> prefix sep (c # cs)
      then piece # Split_from sep [] (drop (length sep) (c # cs))
      else Split_from sep (piece @ [c]) cs)"
  by pat_completeness auto
termination
  by (relation "measure (\<lambda>(sep, piece, s). length s)") (auto simp: neq_Nil_conv)

definition Split :: "string \<Rightarrow> string \<Rightarrow> string list" where
  "Split s sep = Split_from sep [] s"

section \<open>Errors and panics\<close>

text \<open>
  A Go \<^verbatim>\<open>error\<close> value. \<open>SyntaxError\<close> and \<open>UnmarshalTypeError\<close> are the two errors
  of \<^verbatim>\<open>encoding/json\<close>, \<open>ParseError\<close> is the error of \<^verbatim>\<open>time.Parse\<close>,
  \<open>ServiceError\<close> stands for any error a service client returns, and
  \<open>Errorf msg cause\<close> is \<^verbatim>\<open>fmt.Errorf\<close>, with the error wrapped by \<^verbatim>\<open>%w\<close> if there
  is one. A run-time panic is a value of its own type: it is not an error return.
\<close>

datatype error =
    SyntaxError
  | UnmarshalTypeError
  | ParseError
  | ServiceError string
  | Errorf string "error option"

datatype panic = NilPointerDereference | IndexOutOfRange

section \<open>Time (package time)\<close>

text \<open>
  A \<^verbatim>\<open>time.Time\<close> is an instant, counted here in nanoseconds since the Unix epoch.
  \<^verbatim>\<open>time.UnixMilli\<close> reads a count of milliseconds. The zero \<^verbatim>\<open>Time{}\<close> is
  January 1 of year 1, 00:00:00 UTC.
\<close>

type_synonym Time = int

definition UnixMilli :: "int \<Rightarrow> Time" where
  "UnixMilli msec = msec * 1000000"

definition zeroTime :: Time where
  "zeroTime = - 62135596800 * 1000000000"

text \<open>
  The program keeps times as strings in the layout \<^verbatim>\<open>time.RFC3339\<close>
  (\<^verbatim>\<open>2006-01-02T15:04:05Z07:00\<close>), which has no digits below the second. Such a
  string is represented by the instant it denotes, in whole seconds since the epoch,
  not by its characters; the other value a time field takes is the empty string.
  \<^verbatim>\<open>t.Format(time.RFC3339)\<close> therefore drops the sub-second part of \<open>t\<close>.

  \<^verbatim>\<open>time.Parse(time.RFC3339, s)\<close> reads the instant back when the year was written
  with four digits, that is for the years 0000 to 9999; outside them \<^verbatim>\<open>Format\<close> writes
  a sign or a fifth digit and \<^verbatim>\<open>Parse\<close> fails, as it does on the empty string. A
  failing \<^verbatim>\<open>Parse\<close> returns the zero \<^verbatim>\<open>Time\<close> beside its error. The bounds are
  0000-01-01T00:00:00Z and 10000-01-01T00:00:00Z; the zone in which times are
  written is taken to be UTC.
\<close>

datatype timestr = EmptyString | RFC3339 int

definition Format :: "Time \<Rightarrow> timestr" where
  "Format t = RFC3339 (t div 1000000000)"

definition fourDigitYear :: "int \<Rightarrow> bool" where
  "fourDigitYear s \<longleftrightarrow> - 62167219200 \<le> s \<and> s < 253402300800"

fun Parse :: "timestr \<Rightarrow> Time \<times> error option" where
  "Parse EmptyString = (zeroTime, Some ParseError)"
| "Parse (RFC3339 s) =
     (if fourDigitYear s then (s * 1000000000, None) else (zeroTime, Some ParseError))"

text \<open>
  A \<^verbatim>\<open>time.Duration\<close> is a signed 64-bit count of nanoseconds. \<^verbatim>\<open>t.Sub(u)\<close> is
  \<open>t - u\<close>, or the least or greatest \<^verbatim>\<open>Duration\<close> when the difference does not fit.
\<close>

type_synonym Duration = int

definition minDuration :: Duration where
  "minDuration = - (2 ^ 63)"

definition maxDuration :: Duration where
  "maxDuration = 2 ^ 63 - 1"

definition Sub :: "Time \<Rightarrow> Time \<Rightarrow> Duration" where
  "Sub t u =
     (let d = t - u in
      if d < minDuration then minDuration
      else if maxDuration < d then maxDuration
      else d)"

text \<open>
  \<^verbatim>\<open>fmt.Sprintf("%v", d)\<close> of a \<^verbatim>\<open>Duration\<close> is \<^verbatim>\<open>d.String()\<close>: hours, minutes and
  seconds as in \<^verbatim>\<open>1h2m3.5s\<close>, with the leading zero units left out, and below one
  second a single unit \<^verbatim>\<open>ms\<close>, \<^verbatim>\<open>\<mu>s\<close> (the micro sign is the two bytes 0xC2 0xB5)
  or \<^verbatim>\<open>ns\<close>. \<open>fmtInt\<close> writes an integer in decimal, \<open>fmtFrac v prec\<close> writes the
  last \<open>prec\<close> decimal digits of \<open>v\<close> as a fraction without trailing zeros and
  returns the remaining digits of \<open>v\<close>.
\<close>

definition digit :: "int \<Rightarrow> char" where
  "digit d = char_of (48 + d)"

function digits :: "int \<Rightarrow> string" where
  "digits v = (if v \<le> 0 then [] else digits (v div 10) @ [digit (v mod 10)])"
  by pat_completeness auto
termination
  by (relation "measure nat") auto

declare digits.simps [simp del]

definition fmtInt :: "int \<Rightarrow> string" where
  "fmtInt v = (if v = 0 then ''0'' else digits v)"

fun fmtFrac_loop :: "nat \<Rightarrow> int \<Rightarrow> bool \<Rightarrow> string \<Rightarrow> string \<times> int" where
  "fmtFrac_loop 0 v print buf = (if print then CHR ''.'' # buf else buf, v)"
| "fmtFrac_loop (Suc i) v print buf =
     (let d = v mod 10; print' = (print \<or> d \<noteq> 0)
      in fmtFrac_loop i (v div 10) print' (if print' then digit d # buf else buf))"

definition fmtFrac :: "int \<Rightarrow> nat \<Rightarrow> string \<times> int" where
  "fmtFrac v prec = fmtFrac_loop prec v False []"

definition Duration_String :: "Duration \<Rightarrow> string" where
  "Duration_String d =
     (let u = \<bar>d\<bar>; neg = (d < 0) in
      if u < 1000000000 then
        (if u = 0 then ''0s''
         else
           (let (prec, unit) =
                  (if u < 1000 then (0, ''n'')
                   else if u < 1000000 then (3, [CHR 0xC2, CHR 0xB5])
                   else (6, ''m''));
                (frac, u1) = fmtFrac u prec
            in (if neg then ''-'' else []) @ fmtInt u1 @ frac @ unit @ ''s''))
      else
        (let (frac, u1) = fmtFrac u 9;
             secs = fmtInt (u1 mod 60) @ frac @ ''s'';
             u2 = u1 div 60;
             body =
               (if 0 < u2 then
                  (let mins = fmtInt (u2 mod 60) @ ''m''; u3 = u2 div 60
                   in (if 0 < u3 then fmtInt u3 @ ''h'' else []) @ mins @ secs)
                else secs)
         in (if neg then ''-'' else []) @ body))"

section \<open>JSON documents and their Go values (package encoding/json)\<close>

text \<open>
  The text handed to \<^verbatim>\<open>json.Unmarshal\<close> is represented by the document the JSON
  scanner reads from it, or by \<open>None\<close> when the text is not valid JSON
  (\<^verbatim>\<open>checkValid\<close> rejects it with a syntax error before anything is decoded). The
  members of an object are kept in the order of the text, duplicates included. A
  number literal is given by the \<^verbatim>\<open>float64\<close> that \<^verbatim>\<open>strconv.ParseFloat\<close> reads from
  it, or \<open>None\<close> when the literal is outside the \<^verbatim>\<open>float64\<close> range.
\<close>

datatype json =
    JNull
  | JBool bool
  | JNumber "real option"
  | JString string
  | JArray "json list"
  | JObject "(string \<times> json) list"

text \<open>
  The values an \<^verbatim>\<open>interface{}\<close> holds after decoding: \<^verbatim>\<open>nil\<close>, \<^verbatim>\<open>bool\<close>,
  \<^verbatim>\<open>float64\<close>, \<^verbatim>\<open>string\<close>, \<^verbatim>\<open>[]interface{}\<close> and \<^verbatim>\<open>map[string]interface{}\<close>.
  A Go map is a finite map; a variable of map type holds a map or \<^verbatim>\<open>nil\<close>, which
  is written as an \<open>option\<close>.
\<close>

datatype goval =
    GNil
  | GBool bool
  | GFloat64 real
  | GString string
  | GSlice "goval list"
  | GMap "string \<Rightarrow> goval option"

type_synonym gomap = "string \<Rightarrow> goval option"

text \<open>
  \<^verbatim>\<open>for k, v := range m\<close> visits every key of the map once, in an order the
  run-time system chooses. The order is an argument of the model: \<open>range_map m ks\<close>
  is the sequence of entries visited when the keys come in the order \<open>ks\<close>, and
  \<open>range_order m ks\<close> says that \<open>ks\<close> is such an order for \<open>m\<close>.
\<close>

definition range_map :: "('k \<Rightarrow> 'v option) \<Rightarrow> 'k list \<Rightarrow> ('k \<times> 'v) list" where
  "range_map m ks = List.map_filter (\<lambda>k. map_option (Pair k) (m k)) ks"

definition range_order :: "('k \<Rightarrow> 'v option) \<Rightarrow> 'k list \<Rightarrow> bool" where
  "range_order m ks \<longleftrightarrow> distinct ks \<and> set ks = dom m"

text \<open>
  Decoding into an empty \<^verbatim>\<open>interface{}\<close> (\<^verbatim>\<open>valueInterface\<close>,
  \<^verbatim>\<open>objectInterface\<close>, \<^verbatim>\<open>arrayInterface\<close>): in an object the last of several
  members with one key wins. A number outside the \<^verbatim>\<open>float64\<close> range leaves
  \<^verbatim>\<open>nil\<close> and saves an \<^verbatim>\<open>UnmarshalTypeError\<close>; \<open>convertible\<close> says that no such
  number occurs.
\<close>

fun valueInterface :: "json \<Rightarrow> goval" where
  "valueInterface JNull = GNil"
| "valueInterface (JBool b) = GBool b"
| "valueInterface (JNumber n) = (case n of None \<Rightarrow> GNil | Some f \<Rightarrow> GFloat64 f)"
| "valueInterface (JString s) = GString s"
| "valueInterface (JArray xs) = GSlice (map valueInterface xs)"
| "valueInterface (JObject ms) =
     GMap (map_of (rev (map (\<lambda>(k, v). (k, valueInterface v)) ms)))"

fun convertible :: "json \<Rightarrow> bool" where
  "convertible JNull = True"
| "convertible (JBool b) = True"
| "convertible (JNumber n) = (n \<noteq> None)"
| "convertible (JString s) = True"
| "convertible (JArray xs) = list_all convertible xs"
| "convertible (JObject ms) = list_all (\<lambda>(k, v). convertible v) ms"

definition objectInterface :: "(string \<times> json) list \<Rightarrow> gomap" where
  "objectInterface ms = map_of (rev (map (\<lambda>(k, v). (k, valueInterface v)) ms))"

text \<open>
  A name of a JSON member selects the struct field tagged \<^verbatim>\<open>json:"States"\<close> when the
  two are equal under Unicode simple case folding (\<^verbatim>\<open>foldName\<close>): each letter may be
  in either case, and the letter s may also be U+017F, the long s, whose UTF-8 form
  is 0xC5 0xBF. \<open>statesLetters\<close> lists the spellings of each of the six letters, and
  \<open>matchFold key alts\<close> says that \<open>key\<close> is made of one spelling for each position.
\<close>

definition statesLetters :: "string list list" where
  "statesLetters =
     [[''s'', ''S'', [CHR 0xC5, CHR 0xBF]], [''t'', ''T''], [''a'', ''A''],
      [''t'', ''T''], [''e'', ''E''], [''s'', ''S'', [CHR 0xC5, CHR 0xBF]]]"

fun matchFold :: "string \<Rightarrow> string list list \<Rightarrow> bool" where
  "matchFold key [] = (key = [])"
| "matchFold key (alts # rest) =
     list_ex (\<lambda>a. prefix a key \<and> matchFold (drop (length a) key) rest) alts"

definition isStatesField :: "string \<Rightarrow> bool" where
  "isStatesField key = matchFold key statesLetters"

text \<open>
  Decoding into the local struct of \<^verbatim>\<open>parseDefinition\<close>,
  \<^verbatim>\<open>
  var aslDef struct {
      States map[string]map[string]interface{} `json:"States"`
  }
  \<close>
  The decoder keeps going after a value that does not fit its target: it saves an
  \<^verbatim>\<open>UnmarshalTypeError\<close>, which \<^verbatim>\<open>Unmarshal\<close> returns at the end. The flag beside
  each decoded value says that an error was saved.

  \<open>decodeState\<close> decodes one member value of the States object into a fresh element
  of type \<^verbatim>\<open>map[string]interface{}\<close>: \<^verbatim>\<open>null\<close> gives the \<^verbatim>\<open>nil\<close> map, an object
  gives its map, anything else leaves \<^verbatim>\<open>nil\<close> and saves an error. \<open>decodeStates\<close>
  stores each element under its name. \<open>decodeField\<close> decodes a value into the field
  \<open>States\<close>: \<^verbatim>\<open>null\<close> resets it to \<^verbatim>\<open>nil\<close>, an object is decoded into the map the
  field already holds (a new one if it is \<^verbatim>\<open>nil\<close>), anything else saves an error.
  \<open>decodeStruct\<close> decodes the whole document: the members of a top-level object are
  taken in order, those that do not name the field are skipped; a top-level
  \<^verbatim>\<open>null\<close> leaves the struct as it is; any other top-level value saves an error.
\<close>

type_synonym statesField = "(string \<Rightarrow> gomap option option) option"

definition decodeState :: "json \<Rightarrow> gomap option \<times> bool" where
  "decodeState v =
     (case v of
        JNull \<Rightarrow> (None, False)
      | JObject ms \<Rightarrow> (Some (objectInterface ms), \<not> convertible (JObject ms))
      | _ \<Rightarrow> (None, True))"

definition decodeStates ::
  "(string \<Rightarrow> gomap option option) \<times> bool \<Rightarrow> (string \<times> json) list
   \<Rightarrow> (string \<Rightarrow> gomap option option) \<times> bool" where
  "decodeStates acc sm =
     foldl (\<lambda>(m, failed) (name, v).
              let (elem, e) = decodeState v in (m(name \<mapsto> elem), failed \<or> e)) acc sm"

definition decodeField :: "statesField \<times> bool \<Rightarrow> json \<Rightarrow> statesField \<times> bool" where
  "decodeField acc v =
     (case v of
        JNull \<Rightarrow> (None, snd acc)
      | JObject sm \<Rightarrow>
          (let (m, failed) =
                 decodeStates (case fst acc of None \<Rightarrow> Map.empty | Some m \<Rightarrow> m, snd acc) sm
           in (Some m, failed))
      | _ \<Rightarrow> (fst acc, True))"

definition decodeStruct :: "json \<Rightarrow> statesField \<times> bool" where
  "decodeStruct doc =
     (case doc of
        JNull \<Rightarrow> (None, False)
      | JObject ms \<Rightarrow>
          foldl (\<lambda>acc (key, v). if isStatesField key then decodeField acc v else acc)
            (None, False) ms
      | _ \<Rightarrow> (None, True))"

definition Unmarshal_aslDef :: "json option \<Rightarrow> error + statesField" where
  "Unmarshal_aslDef src =
     (case src of
        None \<Rightarrow> Inl SyntaxError
      | Some doc \<Rightarrow>
          (let (states, failed) = decodeStruct doc
           in if failed then Inl UnmarshalTypeError else Inr states))"

text \<open>
  Reading a map and asserting a type, as in \<^verbatim>\<open>rawDef["Type"].(string)\<close> with the
  second result dropped: indexing a \<^verbatim>\<open>nil\<close> map or a missing key gives the \<^verbatim>\<open>nil\<close>
  interface, and a failed assertion gives the zero value of the asserted type.
\<close>

definition index :: "gomap option \<Rightarrow> string \<Rightarrow> goval" where
  "index m key =
     (case m of
        None \<Rightarrow> GNil
      | Some f \<Rightarrow> (case f key of None \<Rightarrow> GNil | Some v \<Rightarrow> v))"

definition assertString :: "goval \<Rightarrow> string" where
  "assertString v = (case v of GString s \<Rightarrow> s | _ \<Rightarrow> [])"

definition assertBool :: "goval \<Rightarrow> bool" where
  "assertBool v = (case v of GBool b \<Rightarrow> b | _ \<Rightarrow> False)"

definition assertMap :: "goval \<Rightarrow> gomap option" where
  "assertMap v = (case v of GMap f \<Rightarrow> Some f | _ \<Rightarrow> None)"

section \<open>The records of package stepfunctions (types.go)\<close>

text \<open>
  \<^verbatim>\<open>
  type State struct {
      Name          string
      Type          string
      Next          string
      End           bool
      Parameters    map[string]interface{}
      RawDefinition map[string]interface{}
  }
  type Execution struct {
      ExecutionArn string
      Status       string
      StartTime    string
      EndTime      string
      Duration     string // Human-readable duration (e.g., "1m30s")
  }
  \<close>
  The two time fields of an execution hold the empty string or an RFC 3339 time. The
  fields of \<^verbatim>\<open>StateMachine\<close> carry the prefix \<open>sm_\<close>; its field \<^verbatim>\<open>Definition\<close>, the
  text of the definition, is kept as the JSON document read from it.
\<close>

record State =
  Name :: string
  Type :: string
  Next :: string
  End :: bool
  Parameters :: "gomap option"
  RawDefinition :: "gomap option"

record Execution =
  ExecutionArn :: string
  Status :: string
  StartTime :: timestr
  EndTime :: timestr
  Duration :: string

record StateMachine =
  sm_Name :: string
  sm_ARN :: string
  sm_RoleARN :: string
  sm_Definition :: "json option"
  sm_States :: "State list"
  sm_Executions :: "Execution list"
  sm_CreationDate :: timestr
  sm_Type :: string

section \<open>The service clients\<close>

text \<open>
  The outputs of the two AWS clients, with the fields the program reads. The fields
  that the services always fill (names, ARNs, the definition, the start and creation
  dates) are plain values; the optional ones the program tests or dereferences are
  options. The fields of \<^verbatim>\<open>DescribeStateMachineOutput\<close> carry the prefix \<open>dsm_\<close>,
  those of \<^verbatim>\<open>DescribeExecutionOutput\<close> the prefix \<open>dex_\<close>.
\<close>

record CloudWatchLogsLogGroup =
  LogGroupArn :: "string option"

record LogDestination =
  CloudWatchLogsLogGroup :: "CloudWatchLogsLogGroup option"

record LoggingConfiguration =
  Destinations :: "LogDestination list"

record DescribeStateMachineOutput =
  dsm_Name :: string
  dsm_StateMachineArn :: string
  dsm_RoleArn :: string
  dsm_Definition :: "json option"
  dsm_CreationDate :: Time
  dsm_Type :: string
  dsm_LoggingConfiguration :: "LoggingConfiguration option"

record DescribeExecutionOutput =
  dex_ExecutionArn :: string
  dex_Status :: string
  dex_StartDate :: Time
  dex_StopDate :: "Time option"

text \<open>
  The local type of \<^verbatim>\<open>getExpressExecutions\<close> into which each log message is decoded;
  its fields \<^verbatim>\<open>ExecutionArn\<close> and \<^verbatim>\<open>Status\<close> carry the prefix \<open>log_\<close>.
  \<^verbatim>\<open>
  type logEvent struct {
      EventType    string `json:"eventType"`
      ExecutionArn string `json:"executionArn"`
      Timestamp    int64  `json:"timestamp"`
      Status       string `json:"status,omitempty"`
  }
  \<close>
  A decoded \<^verbatim>\<open>Timestamp\<close> is a 64-bit integer; the program does no arithmetic of its
  own on it, so it is an \<^typ>\<open>int\<close> here.
\<close>

record logEvent =
  EventType :: string
  log_ExecutionArn :: string
  Timestamp :: int
  log_Status :: string

text \<open>
  A \<^verbatim>\<open>Fetcher\<close> holds the two clients. Each call the program makes is a function
  from the request to the response: \<open>ListExecutions\<close> gives the pages of the
  paginator for a state machine ARN, each page being the error of \<^verbatim>\<open>NextPage\<close> or the
  execution ARNs listed; \<open>FilterLogEvents\<close> gives, for a log group name, an error or
  the messages of the events, each message as \<^verbatim>\<open>json.Unmarshal\<close> reads it into a
  \<^verbatim>\<open>logEvent\<close> (an error when it cannot). What else the requests carry is fixed by
  the program and left out: the page size of 50 of \<^verbatim>\<open>ListExecutions\<close>, and the filter
  pattern on the five lifecycle event types, the limit of 50 events and the start time
  24 hours back of \<^verbatim>\<open>FilterLogEvents\<close>.
\<close>

record Fetcher =
  DescribeStateMachine :: "string \<Rightarrow> error + DescribeStateMachineOutput"
  ListExecutions :: "string \<Rightarrow> (error + string list) list"
  DescribeExecution :: "string \<Rightarrow> error + DescribeExecutionOutput"
  FilterLogEvents :: "string \<Rightarrow> error + (error + logEvent) list"

section \<open>parseDefinition\<close>

text \<open>
  \<^verbatim>\<open>
  func parseDefinition(definition string) ([]State, error) {
      ...
      if err := json.Unmarshal([]byte(definition), &aslDef); err != nil {
          return nil, fmt.Errorf("failed to unmarshal ASL definition: %w", err)
      }
      var states []State
      for name, rawDef := range aslDef.States {
          stateType, _ := rawDef["Type"].(string)
          next, _ := rawDef["Next"].(string)
          end, _ := rawDef["End"].(bool)
          parameters, _ := rawDef["Parameters"].(map[string]interface{})
          states = append(states, State{ ... })
      }
      return states, nil
  }
  \<close>
  The first argument is the order in which the range loop visits the keys.
\<close>

definition makeState :: "string \<times> gomap option \<Rightarrow> State" where
  "makeState entry =
     (let name = fst entry; rawDef = snd entry;
          stateType = assertString (index rawDef ''Type'');
          next = assertString (index rawDef ''Next'');
          end = assertBool (index rawDef ''End'');
          parameters = assertMap (index rawDef ''Parameters'')
      in \<lparr>Name = name, Type = stateType, Next = next, End = end,
          Parameters = parameters, RawDefinition = rawDef\<rparr>)"

definition parseDefinition :: "string list \<Rightarrow> json option \<Rightarrow> error + State list" where
  "parseDefinition ks definition =
     (case Unmarshal_aslDef definition of
        Inl err \<Rightarrow> Inl (Errorf ''failed to unmarshal ASL definition'' (Some err))
      | Inr states \<Rightarrow>
          Inr (map makeState
                 (range_map (case states of None \<Rightarrow> Map.empty | Some m \<Rightarrow> m) ks)))"

section \<open>getExecutions: STANDARD workflows\<close>

text \<open>
  The body of the inner loop for one described execution:
  \<^verbatim>\<open>
  endTime := ""
  duration := "N/A"
  if descResult.StopDate != nil {
      endTime = descResult.StopDate.Format(time.RFC3339)
      start, _ := time.Parse(time.RFC3339, descResult.StartDate.Format(time.RFC3339))
      end, _ := time.Parse(time.RFC3339, endTime)
      dur := end.Sub(start)
      duration = fmt.Sprintf("%v", dur)
  }
  executions = append(executions, Execution{ ... })
  \<close>
\<close>

definition describedExecution :: "DescribeExecutionOutput \<Rightarrow> Execution" where
  "describedExecution descResult =
     (let (endTime, duration) =
            (case dex_StopDate descResult of
               None \<Rightarrow> (EmptyString, ''N/A'')
             | Some stop \<Rightarrow>
                 (let endTime = Format stop;
                      start = fst (Parse (Format (dex_StartDate descResult)));
                      end = fst (Parse endTime);
                      dur = Sub end start
                  in (endTime, Duration_String dur)))
      in \<lparr>ExecutionArn = dex_ExecutionArn descResult,
          Status = dex_Status descResult,
          StartTime = Format (dex_StartDate descResult),
          EndTime = endTime,
          Duration = duration\<rparr>)"

text \<open>
  One page: an execution whose describe call fails is skipped with a warning. The
  pages: the first failing page ends the function with an error.
\<close>

definition getExecutions_page :: "Fetcher \<Rightarrow> Execution list \<Rightarrow> string list \<Rightarrow> Execution list" where
  "getExecutions_page f executions arns =
     foldl (\<lambda>acc arn.
              case DescribeExecution f arn of
                Inl err \<Rightarrow> acc
              | Inr descResult \<Rightarrow> acc @ [describedExecution descResult])
       executions arns"

fun getExecutions_pages ::
  "Fetcher \<Rightarrow> Execution list \<Rightarrow> (error + string list) list \<Rightarrow> error + Execution list" where
  "getExecutions_pages f executions [] = Inr executions"
| "getExecutions_pages f executions (page # pages) =
     (case page of
        Inl err \<Rightarrow> Inl (Errorf ''failed to list executions'' (Some err))
      | Inr arns \<Rightarrow> getExecutions_pages f (getExecutions_page f executions arns) pages)"

definition getExecutions :: "Fetcher \<Rightarrow> string \<Rightarrow> error + Execution list" where
  "getExecutions f stateMachineArn =
     getExecutions_pages f [] (ListExecutions f stateMachineArn)"

section \<open>getExpressExecutions: EXPRESS workflows\<close>

text \<open>
  The body of the loop over the log events, on the map from execution ARN to record
  (the decoded event \<^verbatim>\<open>log\<close> is \<open>logEv\<close> here):
  \<^verbatim>\<open>
  var log logEvent
  if err := json.Unmarshal([]byte(*event.Message), &log); err != nil {
      continue
  }
  timestamp := time.UnixMilli(log.Timestamp).Format(time.RFC3339)
  if _, exists := executionMap[log.ExecutionArn]; !exists && log.EventType == "ExecutionStarted" {
      executionMap[log.ExecutionArn] = &Execution{
          ExecutionArn: log.ExecutionArn, Status: "RUNNING",
          StartTime: timestamp, EndTime: "", Duration: "N/A",
      }
  } else if exec, exists := executionMap[log.ExecutionArn]; exists &&
          strings.HasPrefix(log.EventType, "Execution") && log.EventType != "ExecutionStarted" {
      exec.Status = strings.Replace(log.EventType, "Execution", "", 1)
      exec.EndTime = timestamp
      start, _ := time.Parse(time.RFC3339, exec.StartTime)
      end, _ := time.Parse(time.RFC3339, exec.EndTime)
      exec.Duration = fmt.Sprintf("%v", end.Sub(start))
  }
  \<close>
\<close>

definition correlate ::
  "(string \<Rightarrow> Execution option) \<Rightarrow> error + logEvent \<Rightarrow> (string \<Rightarrow> Execution option)" where
  "correlate executionMap message =
     (case message of
        Inl err \<Rightarrow> executionMap
      | Inr logEv \<Rightarrow>
          (let timestamp = Format (UnixMilli (Timestamp logEv)) in
           if executionMap (log_ExecutionArn logEv) = None \<and> EventType logEv = ''ExecutionStarted''
           then executionMap(log_ExecutionArn logEv \<mapsto>
                  \<lparr>ExecutionArn = log_ExecutionArn logEv, Status = ''RUNNING'',
                   StartTime = timestamp, EndTime = EmptyString, Duration = ''N/A''\<rparr>)
           else
             (case executionMap (log_ExecutionArn logEv) of
                None \<Rightarrow> executionMap
              | Some exec \<Rightarrow>
                  if HasPrefix (EventType logEv) ''Execution'' \<and>
                     EventType logEv \<noteq> ''ExecutionStarted''
                  then
                    (let start = fst (Parse (StartTime exec));
                         end = fst (Parse timestamp)
                     in executionMap(log_ExecutionArn logEv \<mapsto>
                          exec\<lparr>Status := Replace1 (EventType logEv) ''Execution'' [],
                               EndTime := timestamp,
                               Duration := Duration_String (Sub end start)\<rparr>))
                  else executionMap)))"

definition correlateAll :: "(error + logEvent) list \<Rightarrow> (string \<Rightarrow> Execution option)" where
  "correlateAll events = foldl correlate Map.empty events"

text \<open>
  The final loop copies the records of the map into the result,
  \<^verbatim>\<open>for _, exec := range executionMap { executions = append(executions, *exec) }\<close>.
\<close>

definition correlated :: "(error + logEvent) list \<Rightarrow> string list \<Rightarrow> Execution list" where
  "correlated events ks = map snd (range_map (correlateAll events) ks)"

text \<open>
  The whole function. The checks on the logging configuration come first; the log
  group of the first destination is dereferenced without a test, and the name of the
  group is the second piece of the ARN split at \<^verbatim>\<open>:log-group:\<close>, taken without a
  test of the number of pieces. The last argument is the order in which the final
  range loop visits the map.
\<close>

definition getExpressExecutions ::
  "Fetcher \<Rightarrow> DescribeStateMachineOutput \<Rightarrow> string list \<Rightarrow> panic + error + Execution list" where
  "getExpressExecutions f sm ks =
     (case dsm_LoggingConfiguration sm of
        None \<Rightarrow>
          Inr (Inl (Errorf (''logging not enabled for Express Workflow '' @ dsm_Name sm) None))
      | Some conf \<Rightarrow>
          (case Destinations conf of
             [] \<Rightarrow>
               Inr (Inl (Errorf (''logging not enabled for Express Workflow '' @ dsm_Name sm) None))
           | dest # _ \<Rightarrow>
               (case CloudWatchLogsLogGroup dest of
                  None \<Rightarrow> Inl NilPointerDereference
                | Some grp \<Rightarrow>
                    (case LogGroupArn grp of
                       None \<Rightarrow>
                         Inr (Inl (Errorf (''no CloudWatch Log Group configured for '' @ dsm_Name sm)
                                     None))
                     | Some logGroupArn \<Rightarrow>
                         (case Split logGroupArn '':log-group:'' of
                            _ # piece # _ \<Rightarrow>
                              (case Split piece '':'' of
                                 [] \<Rightarrow> Inl IndexOutOfRange
                               | logGroupName # _ \<Rightarrow>
                                   (case FilterLogEvents f logGroupName of
                                      Inl err \<Rightarrow>
                                        Inr (Inl (Errorf (''failed to query CloudWatch Logs for ''
                                                            @ dsm_Name sm) (Some err)))
                                    | Inr events \<Rightarrow>
                                        Inr (Inr (correlated events ks))))
                          | _ \<Rightarrow> Inl IndexOutOfRange)))))"

section \<open>getStateMachineDetails\<close>

text \<open>
  The record put in place of the executions when they cannot be fetched.
\<close>

definition sentinel :: "string \<Rightarrow> Execution" where
  "sentinel status =
     \<lparr>ExecutionArn = ''N/A'', Status = status, StartTime = EmptyString,
      EndTime = EmptyString, Duration = ''N/A''\<rparr>"

text \<open>
  \<^verbatim>\<open>
  result, err := f.sfnClient.DescribeStateMachine(ctx, input)
  if err != nil { return StateMachine{}, fmt.Errorf(...) }
  smType := string(result.Type)
  states, err := parseDefinition(*result.Definition)
  if err != nil { return StateMachine{}, fmt.Errorf(...) }
  var executions []Execution
  if smType == "EXPRESS" {
      executions, err = f.getExpressExecutions(ctx, result)
      if err != nil {
          executions = []Execution{{ExecutionArn: "N/A",
              Status: "Not supported (check CloudWatch Logs configuration)", ...}}
      }
  } else if smType == "STANDARD" {
      executions, err = f.getExecutions(ctx, arn)
      if err != nil { return StateMachine{}, fmt.Errorf(...) }
  } else {
      executions = []Execution{{ExecutionArn: "N/A",
          Status: fmt.Sprintf("Unknown state machine type: %s", smType), ...}}
  }
  return StateMachine{ ... }, nil
  \<close>
  \<open>sks\<close> and \<open>eks\<close> are the orders of the two range loops, over the states and over
  the correlated executions.
\<close>

definition fetchExecutions ::
  "Fetcher \<Rightarrow> string \<Rightarrow> DescribeStateMachineOutput \<Rightarrow> string list
   \<Rightarrow> panic + error + Execution list" where
  "fetchExecutions f arn result eks =
     (let smType = dsm_Type result in
      if smType = ''EXPRESS'' then
        (case getExpressExecutions f result eks of
           Inl p \<Rightarrow> Inl p
         | Inr (Inl err) \<Rightarrow>
             Inr (Inr [sentinel ''Not supported (check CloudWatch Logs configuration)''])
         | Inr (Inr executions) \<Rightarrow> Inr (Inr executions))
      else if smType = ''STANDARD'' then
        (case getExecutions f arn of
           Inl err \<Rightarrow> Inr (Inl (Errorf (''failed to fetch executions for '' @ arn) (Some err)))
         | Inr executions \<Rightarrow> Inr (Inr executions))
      else Inr (Inr [sentinel (''Unknown state machine type: '' @ smType)]))"

definition getStateMachineDetails ::
  "Fetcher \<Rightarrow> string \<Rightarrow> string list \<Rightarrow> string list \<Rightarrow> panic + error + StateMachine" where
  "getStateMachineDetails f arn sks eks =
     (case DescribeStateMachine f arn of
        Inl err \<Rightarrow> Inr (Inl (Errorf (''failed to describe state machine '' @ arn) (Some err)))
      | Inr result \<Rightarrow>
          (case parseDefinition sks (dsm_Definition result) of
             Inl err \<Rightarrow>
               Inr (Inl (Errorf (''failed to parse definition for '' @ arn) (Some err)))
           | Inr states \<Rightarrow>
               (case fetchExecutions f arn result eks of
                  Inl p \<Rightarrow> Inl p
                | Inr (Inl err) \<Rightarrow> Inr (Inl err)
                | Inr (Inr executions) \<Rightarrow>
                    Inr (Inr \<lparr>sm_Name = dsm_Name result,
                              sm_ARN = dsm_StateMachineArn result,
                              sm_RoleARN = dsm_RoleArn result,
                              sm_Definition = dsm_Definition result,
                              sm_States = states,
                              sm_Executions = executions,
                              sm_CreationDate = Format (dsm_CreationDate result),
                              sm_Type = dsm_Type result\<rparr>))))"

section \<open>File names (main.go)\<close>

text \<open>
  The nine characters that \<^verbatim>\<open>sanitizeFileName\<close> replaces:
  \<^verbatim>\<open>/ \ : * ? " < > |\<close>. The backslash is byte 0x5C and the double quote byte 0x22.
\<close>

definition invalidChars :: "string list" where
  "invalidChars =
     [''/'', [CHR 0x5C], '':'', ''*'', ''?'', [CHR 0x22], ''<'', ''>'', ''|'']"

text \<open>
  \<^verbatim>\<open>
  func sanitizeFileName(name string) string {
      invalidChars := []string{"/", "\\", ":", "*", "?", "\"", "<", ">", "|"}
      result := name
      for _, char := range invalidChars {
          result = strings.ReplaceAll(result, char, "_")
      }
      return result
  }
  \<close>
\<close>

definition sanitizeFileName :: "string \<Rightarrow> string" where
  "sanitizeFileName name =
     foldl (\<lambda>result char. ReplaceAll result char ''_'') name invalidChars"

definition unsafe_char :: "char \<Rightarrow> bool" where
  "unsafe_char c \<longleftrightarrow> [c] \<in> set invalidChars"

text \<open>
  What \<^verbatim>\<open>processExecutions\<close> does to the outside, in order: a row appended to the
  console table (the five fields of an execution), a call of \<^verbatim>\<open>os.WriteFile\<close> (the
  directory and the file name that \<^verbatim>\<open>filepath.Join\<close> puts together, and the data), a
  line of the logger, a line printed, and the rendering of the table.
\<close>

datatype effect =
    Append "string \<times> string \<times> timestr \<times> timestr \<times> string"
  | Write string string string
  | Log string
  | Print string
  | Render

text \<open>
  The name of the file of an execution, from \<^verbatim>\<open>saveExecutionDefinition\<close>:
  \<^verbatim>\<open>
  safeExecName := sanitizeFileName(strings.ReplaceAll(executionArn, ":", "_"))
  filePath := filepath.Join(outputDir, fmt.Sprintf("%s_execution_%s.json", smName, safeExecName))
  return os.WriteFile(filePath, definition, 0644)
  \<close>
\<close>

definition executionFileName :: "string \<Rightarrow> string \<Rightarrow> string" where
  "executionFileName smName executionArn =
     (let safeExecName = sanitizeFileName (ReplaceAll executionArn '':'' ''_'')
      in smName @ ''_execution_'' @ safeExecName @ ''.json'')"

text \<open>
  The body of the loop of \<^verbatim>\<open>processExecutions\<close>:
  \<^verbatim>\<open>
  execTable.Append([]string{exec.ExecutionArn, exec.Status, exec.StartTime, exec.EndTime, exec.Duration})
  if exec.ExecutionArn != "N/A" {
      execData, err := json.MarshalIndent(exec, "", "  ")
      if err != nil {
          log.Printf("Failed to marshal execution %s: %v", exec.ExecutionArn, err)
          continue
      }
      if err := saveExecutionDefinition(outputDir, sm.Name, exec.ExecutionArn, execData); err != nil {
          log.Printf("Failed to save execution %s: %v", exec.ExecutionArn, err)
      }
  }
  \<close>
  \<open>MarshalIndent\<close> is the encoder of \<^verbatim>\<open>encoding/json\<close> on an execution, and
  \<open>WriteFile\<close> gives the outcome of the operating system's write for a directory, a
  file name and the data; both are arguments.
\<close>

definition processExecution ::
  "(Execution \<Rightarrow> error + string) \<Rightarrow> (string \<Rightarrow> string \<Rightarrow> string \<Rightarrow> error option)
   \<Rightarrow> StateMachine \<Rightarrow> string \<Rightarrow> Execution \<Rightarrow> effect list" where
  "processExecution MarshalIndent WriteFile sm outputDir exec =
     Append (ExecutionArn exec, Status exec, StartTime exec, EndTime exec, Duration exec) #
     (if ExecutionArn exec \<noteq> ''N/A'' then
        (case MarshalIndent exec of
           Inl err \<Rightarrow> [Log (''Failed to marshal execution '' @ ExecutionArn exec)]
         | Inr execData \<Rightarrow>
             (let name = executionFileName (sm_Name sm) (ExecutionArn exec)
              in Write outputDir name execData #
                 (case WriteFile outputDir name execData of
                    None \<Rightarrow> []
                  | Some err \<Rightarrow> [Log (''Failed to save execution '' @ ExecutionArn exec)])))
      else [])"

definition processExecutions ::
  "(Execution \<Rightarrow> error + string) \<Rightarrow> (string \<Rightarrow> string \<Rightarrow> string \<Rightarrow> error option)
   \<Rightarrow> StateMachine \<Rightarrow> string \<Rightarrow> effect list" where
  "processExecutions MarshalIndent WriteFile sm outputDir =
     concat (map (processExecution MarshalIndent WriteFile sm outputDir) (sm_Executions sm))
     @ [Print (''Executions for '' @ sm_Name sm @ '':''), Render, Print []]"

text \<open>
  The rows of the table and the files written, read off the effects.
\<close>

definition rows :: "effect list \<Rightarrow> (string \<times> string \<times> timestr \<times> timestr \<times> string) list" where
  "rows effs = List.map_filter (\<lambda>e. case e of Append r \<Rightarrow> Some r | _ \<Rightarrow> None) effs"

definition writes :: "effect list \<Rightarrow> (string \<times> string \<times> string) list" where
  "writes effs =
     List.map_filter (\<lambda>e. case e of Write d n x \<Rightarrow> Some (d, n, x) | _ \<Rightarrow> None) effs"

section \<open>Notions used in the statements\<close>

text \<open>
  For an execution ARN \<open>X\<close>, a message is a start event when it decodes to an
  \<^verbatim>\<open>ExecutionStarted\<close> event of \<open>X\<close>, and a closing event when it decodes to an event
  of \<open>X\<close> whose type begins with \<^verbatim>\<open>Execution\<close> and is not \<^verbatim>\<open>ExecutionStarted\<close>.
  \<open>firstStart X events\<close> is the first start event of \<open>X\<close> in a sequence of messages.
\<close>

definition isStart :: "string \<Rightarrow> error + logEvent \<Rightarrow> bool" where
  "isStart X message =
     (case message of
        Inl err \<Rightarrow> False
      | Inr logEv \<Rightarrow> log_ExecutionArn logEv = X \<and> EventType logEv = ''ExecutionStarted'')"

definition isClose :: "string \<Rightarrow> error + logEvent \<Rightarrow> bool" where
  "isClose X message =
     (case message of
        Inl err \<Rightarrow> False
      | Inr logEv \<Rightarrow>
          log_ExecutionArn logEv = X \<and> HasPrefix (EventType logEv) ''Execution'' \<and>
          EventType logEv \<noteq> ''ExecutionStarted'')"

definition firstStart :: "string \<Rightarrow> (error + logEvent) list \<Rightarrow> (error + logEvent) option" where
  "firstStart X events = find (isStart X) events"

text \<open>
  The time at which a message is stamped, and the messages that decode.
\<close>

definition stamp :: "logEvent \<Rightarrow> timestr" where
  "stamp logEv = Format (UnixMilli (Timestamp logEv))"

definition decoded :: "(error + logEvent) list \<Rightarrow> logEvent list" where
  "decoded events = List.map_filter (\<lambda>m. case m of Inl err \<Rightarrow> None | Inr logEv \<Rightarrow> Some logEv) events"

text \<open>
  The duration of a record agrees with its two times when it is what Go computes from
  them: the rendering of the difference of the two parsed strings. The greatest
  distance in seconds that a \<^verbatim>\<open>Duration\<close> holds is \<open>maxSeconds\<close>.
\<close>

definition durationOf :: "timestr \<Rightarrow> timestr \<Rightarrow> string" where
  "durationOf startTime endTime =
     Duration_String (Sub (fst (Parse endTime)) (fst (Parse startTime)))"

definition maxSeconds :: int where
  "maxSeconds = 9223372036"

text \<open>
  Every record of the correlation map is stored under its own execution ARN.
\<close>

definition keyed :: "(string \<Rightarrow> Execution option) \<Rightarrow> bool" where
  "keyed m \<longleftrightarrow> (\<forall>k r. m k = Some r \<longrightarrow> ExecutionArn r = k)"

text \<open>
  A message that decodes to an event with the given type, execution ARN and
  timestamp, and no status.
\<close>

definition event :: "string \<Rightarrow> string \<Rightarrow> int \<Rightarrow> error + logEvent" where
  "event type arn ms =
     Inr \<lparr>EventType = type, log_ExecutionArn = arn, Timestamp = ms, log_Status = []\<rparr>"

text \<open>
  The execution ARNs that the pages of \<^verbatim>\<open>ListExecutions\<close> list, in order, and the
  outputs of the describe calls that succeed on a list of ARNs.
\<close>

definition described :: "Fetcher \<Rightarrow> string list \<Rightarrow> DescribeExecutionOutput list" where
  "described f arns =
     List.map_filter (\<lambda>arn. case DescribeExecution f arn of Inl err \<Rightarrow> None | Inr d \<Rightarrow> Some d) arns"

definition listed :: "(error + string list) list \<Rightarrow> string list" where
  "listed pages = concat (map (\<lambda>page. case page of Inl err \<Rightarrow> [] | Inr arns \<Rightarrow> arns) pages)"

text \<open>
  A fetcher on which the functions are run in the examples. Its state machine is an
  EXPRESS workflow with one state and no logging configuration; its execution list
  has two pages with three executions, of which \<^verbatim>\<open>e1\<close> ran from 10.9 s to 11.1 s,
  \<^verbatim>\<open>e2\<close> cannot be described and \<^verbatim>\<open>e3\<close> is still running.
\<close>

definition sampleMachine :: DescribeStateMachineOutput where
  "sampleMachine =
     \<lparr>dsm_Name = ''m'', dsm_StateMachineArn = ''arn:m'', dsm_RoleArn = ''arn:role'',
      dsm_Definition =
        Some (JObject [(''StartAt'', JString ''A''),
                       (''States'', JObject [(''A'', JObject [(''Type'', JString ''Pass''),
                                                              (''End'', JBool True)])])]),
      dsm_CreationDate = 0, dsm_Type = ''EXPRESS'', dsm_LoggingConfiguration = None\<rparr>"

definition sampleFetcher :: Fetcher where
  "sampleFetcher =
     \<lparr>DescribeStateMachine = (\<lambda>arn. Inr sampleMachine),
      ListExecutions = (\<lambda>arn. [Inr [''e1'', ''e2''], Inr [''e3'']]),
      DescribeExecution =
        (\<lambda>arn.
           if arn = ''e1'' then
             Inr \<lparr>dex_ExecutionArn = ''e1'', dex_Status = ''SUCCEEDED'',
                  dex_StartDate = 10900000000, dex_StopDate = Some 11100000000\<rparr>
           else if arn = ''e3'' then
             Inr \<lparr>dex_ExecutionArn = ''e3'', dex_Status = ''RUNNING'',
                  dex_StartDate = 20000000000, dex_StopDate = None\<rparr>
           else Inl (ServiceError ''ExecutionDoesNotExist'')),
      FilterLogEvents = (\<lambda>name. Inl (ServiceError ''ResourceNotFoundException''))\<rparr>"

text \<open>
  A Go value agrees with a JSON value when it holds what the JSON value says, member by
  member; this is said here without the decoder. \<^verbatim>\<open>null\<close> is \<^verbatim>\<open>nil\<close>, a truth value,
  a number in the \<^verbatim>\<open>float64\<close> range and a string are themselves, an array is the slice
  of the values agreeing with its elements, and an object is the map that has, for each
  name among the members, the value agreeing with the last member of that name, and no
  other key.

  A raw definition agrees with a state of the input when the state is \<^verbatim>\<open>null\<close> and the
  raw definition the \<^verbatim>\<open>nil\<close> map, or the state is an object and the raw definition a
  map that agrees with it.
\<close>

inductive agrees :: "json \<Rightarrow> goval \<Rightarrow> bool" where
  null: "agrees JNull GNil"
| bool: "agrees (JBool b) (GBool b)"
| number: "agrees (JNumber (Some x)) (GFloat64 x)"
| string: "agrees (JString s) (GString s)"
| array: "list_all2 agrees xs gs \<Longrightarrow> agrees (JArray xs) (GSlice gs)"
| object:
    "(\<forall>k. rel_option agrees (map_of (rev ms) k) (f k)) \<Longrightarrow> agrees (JObject ms) (GMap f)"
  monos list_all2_mono option.rel_mono

definition rawAgrees :: "json \<Rightarrow> gomap option \<Rightarrow> bool" where
  "rawAgrees v raw =
     (case v of
        JNull \<Rightarrow> raw = None
      | JObject ob \<Rightarrow> (case raw of None \<Rightarrow> False | Some f \<Rightarrow> agrees (JObject ob) (GMap f))
      | _ \<Rightarrow> False)"

text \<open>
  The documents that fit the struct of \<^verbatim>\<open>parseDefinition\<close>: a state is \<^verbatim>\<open>null\<close> or an
  object all of whose numbers are in the \<^verbatim>\<open>float64\<close> range; a value of the field
  \<open>States\<close> is \<^verbatim>\<open>null\<close> or an object of such states; a document is \<^verbatim>\<open>null\<close> or an
  object in which every member that names the field has such a value.
\<close>

definition stateFits :: "json \<Rightarrow> bool" where
  "stateFits v =
     (case v of JNull \<Rightarrow> True | JObject ob \<Rightarrow> convertible (JObject ob) | _ \<Rightarrow> False)"



text \<open>
  A state machine references no log group when it has no logging configuration, when
  the list of destinations is empty, or when its first destination has no log group or
  a log group without an ARN. Of these, \<^verbatim>\<open>getExpressExecutions\<close> tests three: the
  missing configuration, the empty list, and the log group without an ARN.
\<close>

definition noLogGroup :: "DescribeStateMachineOutput \<Rightarrow> bool" where
  "noLogGroup sm =
     (case dsm_LoggingConfiguration sm of
        None \<Rightarrow> True
      | Some conf \<Rightarrow>
          (case Destinations conf of
             [] \<Rightarrow> True
           | dest # _ \<Rightarrow>
               (case CloudWatchLogsLogGroup dest of
                  None \<Rightarrow> True
                | Some grp \<Rightarrow> LogGroupArn grp = None)))"

definition noLogGroupTested :: "DescribeStateMachineOutput \<Rightarrow> bool" where
  "noLogGroupTested sm =
     (case dsm_LoggingConfiguration sm of
        None \<Rightarrow> True
      | Some conf \<Rightarrow>
          (case Destinations conf of
             [] \<Rightarrow> True
           | dest # _ \<Rightarrow>
               (case CloudWatchLogsLogGroup dest of
                  None \<Rightarrow> False
                | Some grp \<Rightarrow> LogGroupArn grp = None)))"

text \<open>
  The state machine of the examples with a logging configuration whose one destination
  has no log group, and the fetcher that describes it.
\<close>

definition sampleNoGroup :: DescribeStateMachineOutput where
  "sampleNoGroup =
     sampleMachine\<lparr>dsm_LoggingConfiguration :=
       Some \<lparr>Destinations = [\<lparr>CloudWatchLogsLogGroup = None\<rparr>]\<rparr>\<rparr>"

definition sampleNoGroupFetcher :: Fetcher where
  "sampleNoGroupFetcher = sampleFetcher\<lparr>DescribeStateMachine := (\<lambda>arn. Inr sampleNoGroup)\<rparr>"

definition notSupported :: Execution where
  "notSupported = sentinel ''Not supported (check CloudWatch Logs configuration)''"

text \<open>
  An encoder and a file system for the examples: the encoder writes the ARN and the
  status of the execution, and every write succeeds.
\<close>

definition sampleMarshal :: "Execution \<Rightarrow> error + string" where
  "sampleMarshal exec = Inr (ExecutionArn exec @ '' '' @ Status exec)"

definition sampleWriteFile :: "string \<Rightarrow> string \<Rightarrow> string \<Rightarrow> error option" where
  "sampleWriteFile dir name data = None"

section \<open>Properties of the file-name sanitizer\<close>

lemma ReplaceAll_single:
  "ReplaceAll s [a] [b] = map (\<lambda>x. if x = a then b else x) s"
  by (induction s) auto

lemma sanitizeFileName_map:
  "sanitizeFileName s = map (\<lambda>x. if unsafe_char x then CHR ''_'' else x) s"
  by (simp add: sanitizeFileName_def invalidChars_def unsafe_char_def ReplaceAll_single)

lemma underscore_safe: "\<not> unsafe_char CHR ''_''"
  by (simp add: unsafe_char_def invalidChars_def)

lemma sanitizeFileName_twice: "sanitizeFileName (sanitizeFileName s) = sanitizeFileName s"
  by (simp add: sanitizeFileName_map underscore_safe)

lemma sanitizeFileName_clean: "unsafe_char c \<Longrightarrow> c \<notin> set (sanitizeFileName s)"
  using underscore_safe by (auto simp: sanitizeFileName_map)

text \<open>
  Claim C5. Sanitizing is idempotent, and the sanitized name holds none of the nine
  characters \<^verbatim>\<open>/ \ : * ? " < > |\<close>: no one-character string of
  \<^const>\<open>invalidChars\<close> occurs in it.
\<close>

theorem sanitizeFileName_idempotent_clean:
  "sanitizeFileName (sanitizeFileName s) = sanitizeFileName s \<and>
   (\<forall>c. [c] \<in> set invalidChars \<longrightarrow> c \<notin> set (sanitizeFileName s))"
  using sanitizeFileName_twice sanitizeFileName_clean unfolding unsafe_char_def by blast

theorem sanitizeFileName_idempotent_clean_witness:
  "[CHR '':''] \<in> set invalidChars \<and>
   sanitizeFileName (sanitizeFileName ''arn:aws:states/x?'') =
     sanitizeFileName ''arn:aws:states/x?'' \<and>
   CHR '':'' \<notin> set (sanitizeFileName ''arn:aws:states/x?'')"
proof -
  have m: "[CHR '':''] \<in> set invalidChars"
    by (simp add: invalidChars_def)
  note t = sanitizeFileName_idempotent_clean [of "''arn:aws:states/x?''"]
  from t have "CHR '':'' \<notin> set (sanitizeFileName ''arn:aws:states/x?'')"
    using m by blast
  with t m show ?thesis by blast
qed

section \<open>The correlation of log events\<close>

lemma Format_UnixMilli: "Format (UnixMilli ms) = RFC3339 (ms div 1000)"
proof -
  have "(ms * 1000000) div (1000 * 1000000) = ms div 1000"
    by (rule div_mult_mult2) simp
  then have "(ms * 1000000) div 1000000000 = ms div 1000"
    by simp
  then show ?thesis by (simp add: Format_def UnixMilli_def)
qed

lemma correlate_Inl: "correlate m (Inl err) = m"
  by (simp add: correlate_def)

lemma correlate_other:
  "\<not> isStart X msg \<Longrightarrow> \<not> isClose X msg \<Longrightarrow> correlate m msg X = m X"
  by (cases msg) (auto simp: correlate_def isStart_def isClose_def Let_def split: option.splits)

lemma correlate_start_new:
  "isStart X (Inr ev) \<Longrightarrow> m X = None \<Longrightarrow>
   correlate m (Inr ev) X =
     Some \<lparr>ExecutionArn = X, Status = ''RUNNING'', StartTime = stamp ev,
           EndTime = EmptyString, Duration = ''N/A''\<rparr>"
  by (simp add: correlate_def isStart_def stamp_def Let_def)

lemma correlate_start_old:
  "isStart X msg \<Longrightarrow> m X = Some r \<Longrightarrow> correlate m msg = m"
  by (cases msg) (auto simp: correlate_def isStart_def Let_def)

lemma correlate_close_none:
  "isClose X msg \<Longrightarrow> m X = None \<Longrightarrow> correlate m msg = m"
  by (cases msg) (auto simp: correlate_def isClose_def Let_def)

lemma correlate_close_some:
  "isClose X (Inr ev) \<Longrightarrow> m X = Some r \<Longrightarrow>
   correlate m (Inr ev) X =
     Some (r\<lparr>Status := Replace1 (EventType ev) ''Execution'' [],
             EndTime := stamp ev,
             Duration := durationOf (StartTime r) (stamp ev)\<rparr>)"
  by (simp add: correlate_def isClose_def stamp_def durationOf_def Let_def)

lemma correlate_dom:
  "X \<in> dom (correlate m msg) \<longleftrightarrow> X \<in> dom m \<or> isStart X msg"
  by (cases msg) (auto simp: correlate_def isStart_def Let_def split: option.splits if_splits)

lemma foldl_correlate_dom:
  "X \<in> dom (foldl correlate m events) \<longleftrightarrow> X \<in> dom m \<or> (\<exists>msg\<in>set events. isStart X msg)"
  by (induction events arbitrary: m) (auto simp: correlate_dom)

lemma correlateAll_dom:
  "X \<in> dom (correlateAll events) \<longleftrightarrow> (\<exists>msg\<in>set events. isStart X msg)"
  by (simp add: correlateAll_def foldl_correlate_dom)

lemma correlateAll_snoc:
  "correlateAll (events @ [msg]) = correlate (correlateAll events) msg"
  by (simp add: correlateAll_def)

lemma correlate_keyed: "keyed m \<Longrightarrow> keyed (correlate m msg)"
  by (cases msg) (auto simp: keyed_def correlate_def Let_def split: option.splits if_splits)

lemma foldl_correlate_keyed: "keyed m \<Longrightarrow> keyed (foldl correlate m events)"
  by (induction events arbitrary: m) (auto simp: correlate_keyed)

lemma keyed_empty: "keyed Map.empty"
  by (simp add: keyed_def)

lemma correlateAll_keyed: "keyed (correlateAll events)"
  unfolding correlateAll_def by (rule foldl_correlate_keyed [OF keyed_empty])

lemma foldl_correlate_stable:
  "m X = Some r \<Longrightarrow> \<forall>msg\<in>set events. \<not> isClose X msg \<Longrightarrow>
   foldl correlate m events X = Some r"
proof (induction events arbitrary: m)
  case Nil
  then show ?case by simp
next
  case (Cons msg events)
  have "correlate m msg X = Some r"
  proof (cases "isStart X msg")
    case True
    with Cons.prems show ?thesis by (simp add: correlate_start_old)
  next
    case False
    with Cons.prems show ?thesis by (simp add: correlate_other)
  qed
  with Cons show ?case by simp
qed

lemma correlate_keeps_start:
  "m X = Some r \<Longrightarrow>
   \<exists>r'. correlate m msg X = Some r' \<and> StartTime r' = StartTime r \<and> ExecutionArn r' = ExecutionArn r"
  by (cases msg) (auto simp: correlate_def Let_def split: option.splits)

lemma foldl_correlate_keeps_start:
  "m X = Some r \<Longrightarrow>
   \<exists>r'. foldl correlate m events X = Some r' \<and> StartTime r' = StartTime r \<and>
        ExecutionArn r' = ExecutionArn r"
proof (induction events arbitrary: m r)
  case Nil
  then show ?case by simp
next
  case (Cons msg events)
  from correlate_keeps_start [of m X r msg] Cons.prems obtain r1 where
    r1: "correlate m msg X = Some r1" "StartTime r1 = StartTime r" "ExecutionArn r1 = ExecutionArn r"
    by blast
  from Cons.IH [of "correlate m msg" r1] r1 show ?case by simp
qed

lemma range_map_Nil: "range_map m [] = []"
  by (simp add: range_map_def List.map_filter_simps)

lemma range_map_Cons:
  "range_map m (k # ks) = (case m k of None \<Rightarrow> range_map m ks | Some v \<Rightarrow> (k, v) # range_map m ks)"
  by (simp add: range_map_def List.map_filter_simps split: option.splits)

lemma set_range_map: "set (range_map m ks) = {(k, v). k \<in> set ks \<and> m k = Some v}"
  by (induction ks) (auto simp: range_map_Nil range_map_Cons split: option.splits)

lemma map_fst_range_map: "map fst (range_map m ks) = filter (\<lambda>k. k \<in> dom m) ks"
  by (induction ks) (auto simp: range_map_Nil range_map_Cons split: option.splits)

lemma length_range_map_order: "range_order m ks \<Longrightarrow> length (range_map m ks) = card (dom m)"
proof -
  assume a: "range_order m ks"
  then have "filter (\<lambda>k. k \<in> dom m) ks = ks"
    by (auto simp: range_order_def)
  then have "length (range_map m ks) = length ks"
    by (metis length_map map_fst_range_map)
  also from a have "length ks = card (dom m)"
    by (metis distinct_card range_order_def)
  finally show ?thesis .
qed

lemma correlated_set:
  "set (correlated events ks) = {r. \<exists>k\<in>set ks. correlateAll events k = Some r}"
  by (auto simp: correlated_def set_range_map image_iff)

lemma correlated_arns:
  "map ExecutionArn (correlated events ks) = filter (\<lambda>k. k \<in> dom (correlateAll events)) ks"
proof -
  have "\<And>m. keyed m \<Longrightarrow> map ExecutionArn (map snd (range_map m ks)) = filter (\<lambda>k. k \<in> dom m) ks"
    by (induction ks) (auto simp: range_map_Nil range_map_Cons keyed_def split: option.splits)
  then show ?thesis
    by (simp add: correlated_def correlateAll_keyed)
qed

lemma correlated_filter:
  assumes "distinct ks"
  shows "filter (\<lambda>r. ExecutionArn r = X) (correlated events ks) =
         (if X \<in> set ks then (case correlateAll events X of None \<Rightarrow> [] | Some r \<Rightarrow> [r]) else [])"
proof -
  have "\<And>m. keyed m \<Longrightarrow> distinct ks \<Longrightarrow>
          filter (\<lambda>r. ExecutionArn r = X) (map snd (range_map m ks)) =
          (if X \<in> set ks then (case m X of None \<Rightarrow> [] | Some r \<Rightarrow> [r]) else [])"
    by (induction ks) (auto simp: range_map_Nil range_map_Cons keyed_def split: option.splits)
  with assms show ?thesis
    by (simp add: correlated_def correlateAll_keyed)
qed

lemma foldl_correlate_first_start:
  "m X = None \<Longrightarrow> foldl correlate m events X = Some r \<Longrightarrow>
   \<exists>ev. find (isStart X) events = Some (Inr ev) \<and> StartTime r = stamp ev"
proof (induction events arbitrary: m)
  case Nil
  then show ?case by simp
next
  case (Cons msg events)
  show ?case
  proof (cases "isStart X msg")
    case True
    then obtain ev where ev: "msg = Inr ev"
      by (cases msg) (auto simp: isStart_def)
    let ?r0 = "\<lparr>ExecutionArn = X, Status = ''RUNNING'', StartTime = stamp ev,
                 EndTime = EmptyString, Duration = ''N/A''\<rparr>"
    from True ev Cons.prems(1) have "correlate m msg X = Some ?r0"
      by (simp add: correlate_start_new)
    from foldl_correlate_keeps_start [of "correlate m msg" X ?r0 events] this
    obtain r' where "foldl correlate (correlate m msg) events X = Some r'" "StartTime r' = stamp ev"
      by auto
    with Cons.prems(2) have "StartTime r = stamp ev" by simp
    with True ev show ?thesis by simp
  next
    case False
    have "correlate m msg X = None"
    proof (cases "isClose X msg")
      case True
      with Cons.prems(1) show ?thesis by (simp add: correlate_close_none)
    next
      case c: False
      with False Cons.prems(1) show ?thesis by (simp add: correlate_other)
    qed
    from Cons.IH [of "correlate m msg"] this Cons.prems(2) False show ?thesis by simp
  qed
qed

lemma correlateAll_first_start:
  "correlateAll events X = Some r \<Longrightarrow>
   \<exists>ev. firstStart X events = Some (Inr ev) \<and> StartTime r = stamp ev"
  unfolding correlateAll_def firstStart_def
  by (rule foldl_correlate_first_start) simp_all

lemmas duration_eval =
  Duration_String_def fmtFrac_def fmtInt_def digits.simps digit_def char_of_def
  eval_nat_numeral Let_def

lemma stamp_event: "msg = event t X ms \<Longrightarrow> msg = Inr ev \<Longrightarrow> stamp ev = RFC3339 (ms div 1000)"
  by (auto simp: event_def stamp_def Format_UnixMilli)

lemma isStart_event: "isStart X (event t Y ms) \<longleftrightarrow> Y = X \<and> t = ''ExecutionStarted''"
  by (simp add: isStart_def event_def)

lemma isClose_event:
  "isClose X (event t Y ms) \<longleftrightarrow> Y = X \<and> prefix ''Execution'' t \<and> t \<noteq> ''ExecutionStarted''"
  by (simp add: isClose_def event_def HasPrefix_def)

lemma correlate_event:
  "correlate m (event t X ms) =
     (if m X = None \<and> t = ''ExecutionStarted''
      then m(X \<mapsto> \<lparr>ExecutionArn = X, Status = ''RUNNING'', StartTime = RFC3339 (ms div 1000),
                     EndTime = EmptyString, Duration = ''N/A''\<rparr>)
      else (case m X of
              None \<Rightarrow> m
            | Some r \<Rightarrow>
                if prefix ''Execution'' t \<and> t \<noteq> ''ExecutionStarted''
                then m(X \<mapsto> r\<lparr>Status := Replace1 t ''Execution'' [],
                                 EndTime := RFC3339 (ms div 1000),
                                 Duration := durationOf (StartTime r) (RFC3339 (ms div 1000))\<rparr>)
                else m))"
  by (simp add: correlate_def event_def Format_UnixMilli HasPrefix_def durationOf_def Let_def
        split: option.split)

lemma durationOf_seconds:
  assumes "fourDigitYear a" "fourDigitYear b" "\<bar>b - a\<bar> \<le> maxSeconds"
  shows "durationOf (RFC3339 a) (RFC3339 b) = Duration_String ((b - a) * 1000000000)"
proof -
  have "b * 1000000000 - a * 1000000000 = (b - a) * 1000000000"
    by (simp add: algebra_simps)
  moreover from assms(3) have "- 9223372036 \<le> b - a" "b - a \<le> 9223372036"
    by (simp_all add: maxSeconds_def)
  ultimately show ?thesis
    using assms(1,2) by (simp add: durationOf_def Sub_def minDuration_def maxDuration_def Let_def)
qed

lemma Replace1_Succeeded: "Replace1 ''ExecutionSucceeded'' ''Execution'' [] = ''Succeeded''"
  by simp

lemma closed_record:
  "ExecutionArn r = X \<Longrightarrow> StartTime r = t \<Longrightarrow>
   r\<lparr>Status := s, EndTime := e, Duration := d\<rparr> =
   \<lparr>ExecutionArn = X, Status = s, StartTime = t, EndTime = e, Duration = d\<rparr>"
  by (cases r) simp

lemmas express_eval =
  correlated_def range_map_Cons range_map_Nil correlateAll_def correlate_event
  durationOf_def Sub_def minDuration_def maxDuration_def fourDigitYear_def duration_eval

section \<open>The executions of STANDARD workflows\<close>

lemma described_Nil: "described f [] = []"
  by (simp add: described_def List.map_filter_simps)

lemma described_Cons:
  "described f (arn # arns) =
     (case DescribeExecution f arn of Inl err \<Rightarrow> described f arns | Inr d \<Rightarrow> d # described f arns)"
  by (simp add: described_def List.map_filter_simps split: sum.splits)

lemma described_append: "described f (xs @ ys) = described f xs @ described f ys"
  by (induction xs) (auto simp: described_Nil described_Cons split: sum.splits)

lemma getExecutions_page_eq:
  "getExecutions_page f acc arns = acc @ map describedExecution (described f arns)"
  unfolding getExecutions_page_def
  by (induction arns arbitrary: acc) (auto simp: described_Nil described_Cons split: sum.splits)

lemma getExecutions_pages_eq:
  "getExecutions_pages f acc pages = Inr xs \<Longrightarrow>
   xs = acc @ map describedExecution (described f (listed pages))"
proof (induction pages arbitrary: acc)
  case Nil
  then show ?case by (simp add: listed_def described_Nil)
next
  case (Cons page pages)
  then show ?case
  proof (cases page)
    case (Inl err)
    with Cons.prems show ?thesis by simp
  next
    case (Inr arns)
    with Cons.prems have "getExecutions_pages f (getExecutions_page f acc arns) pages = Inr xs"
      by simp
    from Cons.IH [OF this] Inr show ?thesis
      by (simp add: getExecutions_page_eq listed_def described_append)
  qed
qed

lemma getExecutions_pages_ok:
  "(\<forall>page\<in>set pages. \<exists>arns. page = Inr arns) \<Longrightarrow>
   \<exists>xs. getExecutions_pages f acc pages = Inr xs"
  by (induction pages arbitrary: acc) auto

lemma getExecutions_eq:
  "getExecutions f arn = Inr xs \<Longrightarrow>
   xs = map describedExecution (described f (listed (ListExecutions f arn)))"
  unfolding getExecutions_def by (drule getExecutions_pages_eq) simp

lemma set_described:
  "set (described f arns) = {d. \<exists>arn\<in>set arns. DescribeExecution f arn = Inr d}"
  by (induction arns) (auto simp: described_Nil described_Cons split: sum.splits)

lemma Format_seconds: "Format t = RFC3339 (t div 1000000000)"
  by (simp add: Format_def)

lemma describedExecution_stopped:
  "dex_StopDate d = Some stop \<Longrightarrow>
   describedExecution d =
     \<lparr>ExecutionArn = dex_ExecutionArn d, Status = dex_Status d,
      StartTime = Format (dex_StartDate d), EndTime = Format stop,
      Duration = durationOf (Format (dex_StartDate d)) (Format stop)\<rparr>"
  by (simp add: describedExecution_def durationOf_def Let_def)

lemma describedExecution_running:
  "dex_StopDate d = None \<Longrightarrow>
   describedExecution d =
     \<lparr>ExecutionArn = dex_ExecutionArn d, Status = dex_Status d,
      StartTime = Format (dex_StartDate d), EndTime = EmptyString, Duration = ''N/A''\<rparr>"
  by (simp add: describedExecution_def Let_def)

lemma Sub_seconds_nonneg:
  assumes "fourDigitYear a" "fourDigitYear b" "a \<le> b"
  shows "0 \<le> Sub (fst (Parse (RFC3339 b))) (fst (Parse (RFC3339 a)))"
  using assms by (simp add: Sub_def minDuration_def maxDuration_def Let_def)

section \<open>Durations and the order of the two times\<close>

lemma decoded_snoc:
  "decoded (events @ [msg]) =
     decoded events @ (case msg of Inl err \<Rightarrow> [] | Inr ev \<Rightarrow> [ev])"
  by (simp add: decoded_def List.map_filter_def split: sum.splits)

lemma stamp_seconds: "stamp ev = RFC3339 (Timestamp ev div 1000)"
  by (simp add: stamp_def Format_UnixMilli)

lemma correlate_consistent:
  assumes "\<forall>k r. m k = Some r \<longrightarrow> EndTime r \<noteq> EmptyString \<longrightarrow>
             Duration r = durationOf (StartTime r) (EndTime r)"
  shows "\<forall>k r. correlate m msg k = Some r \<longrightarrow> EndTime r \<noteq> EmptyString \<longrightarrow>
             Duration r = durationOf (StartTime r) (EndTime r)"
  using assms
  by (cases msg)
     (auto simp: correlate_def durationOf_def Let_def split: option.splits if_splits)

lemma correlateAll_consistent:
  "\<forall>k r. correlateAll events k = Some r \<longrightarrow> EndTime r \<noteq> EmptyString \<longrightarrow>
     Duration r = durationOf (StartTime r) (EndTime r)"
proof (induction events rule: rev_induct)
  case Nil
  then show ?case by (simp add: correlateAll_def)
next
  case (snoc msg events)
  then show ?case
    unfolding correlateAll_snoc by (rule correlate_consistent)
qed

lemma correlate_cases:
  "correlate m msg k = m k \<or>
   (\<exists>ev. msg = Inr ev \<and> m k = None \<and>
      correlate m msg k =
        Some \<lparr>ExecutionArn = k, Status = ''RUNNING'', StartTime = stamp ev,
              EndTime = EmptyString, Duration = ''N/A''\<rparr>) \<or>
   (\<exists>ev r0. msg = Inr ev \<and> m k = Some r0 \<and>
      correlate m msg k =
        Some (r0\<lparr>Status := Replace1 (EventType ev) ''Execution'' [],
                 EndTime := stamp ev,
                 Duration := durationOf (StartTime r0) (stamp ev)\<rparr>))"
proof (cases "isStart k msg")
  case True
  then obtain ev where ev: "msg = Inr ev"
    by (cases msg) (auto simp: isStart_def)
  show ?thesis
  proof (cases "m k")
    case None
    with True ev show ?thesis by (simp add: correlate_start_new)
  next
    case (Some r0)
    with True show ?thesis by (simp add: correlate_start_old)
  qed
next
  case False
  show ?thesis
  proof (cases "isClose k msg")
    case c: False
    with False show ?thesis by (simp add: correlate_other)
  next
    case True
    then obtain ev where ev: "msg = Inr ev"
      by (cases msg) (auto simp: isClose_def)
    show ?thesis
    proof (cases "m k")
      case None
      with True show ?thesis by (simp add: correlate_close_none)
    next
      case (Some r0)
      with True ev show ?thesis by (simp add: correlate_close_some)
    qed
  qed
qed

lemma correlateAll_ordered:
  "sorted (map Timestamp (decoded events)) \<Longrightarrow>
   \<forall>k r. correlateAll events k = Some r \<longrightarrow>
     (\<exists>ev\<in>set (decoded events). StartTime r = stamp ev) \<and>
     (\<forall>a b. StartTime r = RFC3339 a \<longrightarrow> EndTime r = RFC3339 b \<longrightarrow> a \<le> b)"
proof (induction events rule: rev_induct)
  case Nil
  then show ?case by (simp add: correlateAll_def)
next
  case (snoc msg events)
  let ?m = "correlateAll events"
  from snoc.prems have srt: "sorted (map Timestamp (decoded events))"
    by (simp add: decoded_snoc sorted_append)
  note IH = snoc.IH [OF srt]
  have sub: "set (decoded events) \<subseteq> set (decoded (events @ [msg]))"
    by (simp add: decoded_snoc)
  show ?case
  proof (intro allI impI)
    fix k r assume kr: "correlateAll (events @ [msg]) k = Some r"
    then have kr': "correlate ?m msg k = Some r"
      by (simp add: correlateAll_snoc)
    from correlate_cases [of ?m msg k]
    consider (same) "correlate ?m msg k = ?m k"
      | (opened) ev where "msg = Inr ev" "?m k = None"
          "correlate ?m msg k =
             Some \<lparr>ExecutionArn = k, Status = ''RUNNING'', StartTime = stamp ev,
                   EndTime = EmptyString, Duration = ''N/A''\<rparr>"
      | (closed) ev r0 where "msg = Inr ev" "?m k = Some r0"
          "correlate ?m msg k =
             Some (r0\<lparr>Status := Replace1 (EventType ev) ''Execution'' [],
                      EndTime := stamp ev,
                      Duration := durationOf (StartTime r0) (stamp ev)\<rparr>)"
      by blast
    then show "(\<exists>e\<in>set (decoded (events @ [msg])). StartTime r = stamp e) \<and>
            (\<forall>a b. StartTime r = RFC3339 a \<longrightarrow> EndTime r = RFC3339 b \<longrightarrow> a \<le> b)"
    proof cases
      case same
      with kr' have "?m k = Some r" by simp
      with IH have "(\<exists>e\<in>set (decoded events). StartTime r = stamp e) \<and>
            (\<forall>a b. StartTime r = RFC3339 a \<longrightarrow> EndTime r = RFC3339 b \<longrightarrow> a \<le> b)"
        by blast
      with sub show ?thesis by blast
    next
      case opened
      with kr' have r: "StartTime r = stamp ev" "EndTime r = EmptyString"
        by auto
      from opened(1) have "ev \<in> set (decoded (events @ [msg]))"
        by (simp add: decoded_snoc)
      with r show ?thesis by auto
    next
      case closed
      with kr' have r: "StartTime r = StartTime r0" "EndTime r = stamp ev"
        by auto
      from IH closed(2) obtain e0 where e0: "e0 \<in> set (decoded events)" "StartTime r0 = stamp e0"
        by blast
      from snoc.prems closed(1) have "\<forall>e\<in>set (decoded events). Timestamp e \<le> Timestamp ev"
        by (simp add: decoded_snoc sorted_append)
      with e0 have "Timestamp e0 div 1000 \<le> Timestamp ev div 1000"
        by (simp add: zdiv_mono1)
      with r e0 have "\<forall>a b. StartTime r = RFC3339 a \<longrightarrow> EndTime r = RFC3339 b \<longrightarrow> a \<le> b"
        by (simp add: stamp_seconds)
      moreover from r e0 sub have "\<exists>e\<in>set (decoded (events @ [msg])). StartTime r = stamp e"
        by auto
      ultimately show ?thesis by blast
    qed
  qed
qed

lemma describedExecution_consistent:
  "EndTime (describedExecution d) \<noteq> EmptyString \<longrightarrow>
   Duration (describedExecution d) =
     durationOf (StartTime (describedExecution d)) (EndTime (describedExecution d))"
  by (cases "dex_StopDate d") (simp_all add: describedExecution_stopped describedExecution_running)

lemma describedExecution_ordered:
  assumes "\<forall>stop. dex_StopDate d = Some stop \<longrightarrow> dex_StartDate d \<le> stop"
  shows "\<forall>a b. StartTime (describedExecution d) = RFC3339 a \<longrightarrow>
           EndTime (describedExecution d) = RFC3339 b \<longrightarrow> a \<le> b"
proof (cases "dex_StopDate d")
  case None
  then show ?thesis by (simp add: describedExecution_running)
next
  case (Some stop)
  with assms have "dex_StartDate d div 1000000000 \<le> stop div 1000000000"
    by (simp add: zdiv_mono1)
  with Some show ?thesis
    by (simp add: describedExecution_stopped Format_seconds)
qed

lemma sample_listed: "listed (ListExecutions sampleFetcher arn) = [''e1'', ''e2'', ''e3'']"
  by (simp add: sampleFetcher_def listed_def)

lemma sample_described:
  "described sampleFetcher [''e1'', ''e2'', ''e3''] =
     [\<lparr>dex_ExecutionArn = ''e1'', dex_Status = ''SUCCEEDED'',
       dex_StartDate = 10900000000, dex_StopDate = Some 11100000000\<rparr>,
      \<lparr>dex_ExecutionArn = ''e3'', dex_Status = ''RUNNING'',
       dex_StartDate = 20000000000, dex_StopDate = None\<rparr>]"
  by (simp add: described_Cons described_Nil sampleFetcher_def)

lemma getExecutions_pages_Inr:
  "getExecutions_pages f acc (map Inr pss) =
     Inr (acc @ map describedExecution (described f (concat pss)))"
  by (induction pss arbitrary: acc) (simp_all add: described_Nil getExecutions_page_eq described_append)

lemma sample_e1:
  "describedExecution
     \<lparr>dex_ExecutionArn = ''e1'', dex_Status = ''SUCCEEDED'',
      dex_StartDate = 10900000000, dex_StopDate = Some 11100000000\<rparr> =
   \<lparr>ExecutionArn = ''e1'', Status = ''SUCCEEDED'', StartTime = RFC3339 10,
    EndTime = RFC3339 11, Duration = ''1s''\<rparr>"
proof -
  have "durationOf (RFC3339 10) (RFC3339 11) = ''1s''"
    by (simp add: durationOf_def Sub_def minDuration_def maxDuration_def fourDigitYear_def
          duration_eval)
  then show ?thesis
    by (simp add: describedExecution_stopped Format_seconds)
qed

lemma sample_e3:
  "describedExecution
     \<lparr>dex_ExecutionArn = ''e3'', dex_Status = ''RUNNING'',
      dex_StartDate = 20000000000, dex_StopDate = None\<rparr> =
   \<lparr>ExecutionArn = ''e3'', Status = ''RUNNING'', StartTime = RFC3339 20,
    EndTime = EmptyString, Duration = ''N/A''\<rparr>"
  by (simp add: describedExecution_running Format_seconds)

lemma sample_getExecutions:
  "getExecutions sampleFetcher arn =
     Inr [\<lparr>ExecutionArn = ''e1'', Status = ''SUCCEEDED'', StartTime = RFC3339 10,
           EndTime = RFC3339 11, Duration = ''1s''\<rparr>,
          \<lparr>ExecutionArn = ''e3'', Status = ''RUNNING'', StartTime = RFC3339 20,
           EndTime = EmptyString, Duration = ''N/A''\<rparr>]"
proof -
  have "getExecutions sampleFetcher arn =
      getExecutions_pages sampleFetcher [] (map Inr [[''e1'', ''e2''], [''e3'']])"
    by (simp add: getExecutions_def sampleFetcher_def)
  also have "\<dots> = Inr ([] @ map describedExecution
                               (described sampleFetcher (concat [[''e1'', ''e2''], [''e3'']])))"
    by (rule getExecutions_pages_Inr)
  also have "concat [[''e1'', ''e2''], [''e3'']] = [''e1'', ''e2'', ''e3'']"
    by simp
  finally show ?thesis
    by (simp only: sample_described list.map sample_e1 sample_e3 append_Nil)
qed

section \<open>Decoding a definition\<close>


lemma decodeStates_Nil: "decodeStates acc [] = acc"
  by (simp add: decodeStates_def)

lemma decodeStates_Cons:
  "decodeStates (m, failed) ((name, v) # sm) =
     decodeStates (m(name \<mapsto> fst (decodeState v)), failed \<or> snd (decodeState v)) sm"
  by (simp add: decodeStates_def split_beta)












lemma decodeState_fits: "stateFits v \<Longrightarrow> fst (decodeState v) =
    (case v of JObject ob \<Rightarrow> Some (objectInterface ob) | _ \<Rightarrow> None)"
  by (cases v) (simp_all add: decodeState_def stateFits_def)



inductive_cases agrees_nullE: "agrees JNull g"
inductive_cases agrees_boolE: "agrees (JBool b) g"
inductive_cases agrees_numberE: "agrees (JNumber n) g"
inductive_cases agrees_stringE: "agrees (JString s) g"
inductive_cases agrees_arrayE: "agrees (JArray xs) g"
inductive_cases agrees_objectE: "agrees (JObject ms) g"

lemma list_all2_unique:
  "list_all2 (\<lambda>x g. agrees x g \<and> (\<forall>g'. agrees x g' \<longrightarrow> g = g')) xs gs \<Longrightarrow>
   list_all2 agrees xs gs' \<Longrightarrow> gs = gs'"
proof (induction xs gs arbitrary: gs' rule: list_all2_induct)
  case Nil
  then show ?case by simp
next
  case (Cons x xs y ys)
  from Cons.prems obtain z zs where z: "gs' = z # zs" "agrees x z" "list_all2 agrees xs zs"
    by (auto simp: list_all2_Cons1)
  from Cons.hyps(1) z(2) have "y = z" by blast
  moreover from z(3) have "ys = zs" by (rule Cons.IH)
  ultimately show ?case using z(1) by simp
qed

lemma agrees_unique: "agrees v g \<Longrightarrow> agrees v g' \<Longrightarrow> g = g'"
proof (induction v g arbitrary: g' rule: agrees.induct)
  case null
  then show ?case by (rule agrees_nullE) simp
next
  case (bool b)
  then show ?case by (rule agrees_boolE) simp
next
  case (number x)
  then show ?case by (rule agrees_numberE) simp
next
  case (string s)
  then show ?case by (rule agrees_stringE) simp
next
  case (array xs gs)
  from array.prems obtain gs' where g': "g' = GSlice gs'" and l: "list_all2 agrees xs gs'"
    by (rule agrees_arrayE)
  from array.IH l have "gs = gs'"
    by (rule list_all2_unique)
  with g' show ?case by simp
next
  case (object ms f)
  from object.prems obtain f' where g': "g' = GMap f'"
    and l: "\<forall>k. rel_option agrees (map_of (rev ms) k) (f' k)"
    by (rule agrees_objectE)
  have "f k = f' k" for k
  proof -
    from object.IH have a: "rel_option (\<lambda>x1 x2. agrees x1 x2 \<and> (\<forall>x. agrees x1 x \<longrightarrow> x2 = x))
            (map_of (rev ms) k) (f k)" by (rule spec)
    from l have b: "rel_option agrees (map_of (rev ms) k) (f' k)" by (rule spec)
    show ?thesis
    proof (cases "map_of (rev ms) k")
      case None
      with a b show ?thesis by simp
    next
      case (Some v)
      with a obtain g1 where g1: "f k = Some g1" "\<forall>x. agrees v x \<longrightarrow> g1 = x"
        by (cases "f k") simp_all
      from Some b obtain g2 where g2: "f' k = Some g2" "agrees v g2"
        by (cases "f' k") simp_all
      from g1(2) g2(2) have "g1 = g2" by blast
      with g1(1) g2(1) show ?thesis by simp
    qed
  qed
  then have "f = f'" by (rule ext)
  with g' show ?case by simp
qed

lemma rawAgrees_unique: "rawAgrees v raw \<Longrightarrow> rawAgrees v raw' \<Longrightarrow> raw = raw'"
proof (cases v)
  case (JObject ob)
  assume a: "rawAgrees v raw" "rawAgrees v raw'"
  with JObject obtain f f' where "raw = Some f" "raw' = Some f'"
    "agrees (JObject ob) (GMap f)" "agrees (JObject ob) (GMap f')"
    by (cases raw; cases raw') (simp_all add: rawAgrees_def)
  moreover from this have "GMap f = GMap f'"
    using agrees_unique by blast
  ultimately show ?thesis by simp
qed (simp_all add: rawAgrees_def)







lemma isStatesField_States: "isStatesField ''States''"
  by (simp add: isStatesField_def statesLetters_def)


lemma isStatesField_StartAt: "\<not> isStatesField ''StartAt''"
  by (simp add: isStatesField_def statesLetters_def)






section \<open>Fetch failures and the output writer\<close>

lemma getExpressExecutions_noLogGroupTested:
  "noLogGroupTested sm \<Longrightarrow> \<exists>err. getExpressExecutions f sm eks = Inr (Inl err)"
  by (auto simp: noLogGroupTested_def getExpressExecutions_def split: option.splits list.splits)

lemma fetchExecutions_noLogGroupTested:
  "noLogGroupTested sm \<Longrightarrow> dsm_Type sm = ''EXPRESS'' \<Longrightarrow>
   fetchExecutions f arn sm eks = Inr (Inr [notSupported])"
  using getExpressExecutions_noLogGroupTested [of sm f eks]
  by (auto simp: fetchExecutions_def notSupported_def Let_def)

lemma getStateMachineDetails_noLogGroupTested:
  "noLogGroupTested sm \<Longrightarrow> dsm_Type sm = ''EXPRESS'' \<Longrightarrow> DescribeStateMachine f arn = Inr sm \<Longrightarrow>
   parseDefinition sks (dsm_Definition sm) = Inr states \<Longrightarrow>
   \<exists>m. getStateMachineDetails f arn sks eks = Inr (Inr m) \<and>
       sm_Executions m = [notSupported] \<and> sm_States m = states \<and> sm_Name m = dsm_Name sm"
  using fetchExecutions_noLogGroupTested [of sm f arn eks]
  by (simp add: getStateMachineDetails_def)

lemma noLogGroup_cases:
  "noLogGroup sm \<longleftrightarrow>
     noLogGroupTested sm \<or>
     (\<exists>conf dest rest. dsm_LoggingConfiguration sm = Some conf \<and>
        Destinations conf = dest # rest \<and> CloudWatchLogsLogGroup dest = None)"
  by (auto simp: noLogGroup_def noLogGroupTested_def split: option.splits list.splits)

lemma getExpressExecutions_nil_group:
  "dsm_LoggingConfiguration sm = Some conf \<Longrightarrow> Destinations conf = dest # rest \<Longrightarrow>
   CloudWatchLogsLogGroup dest = None \<Longrightarrow>
   getExpressExecutions f sm eks = Inl NilPointerDereference"
  by (simp add: getExpressExecutions_def)

lemma rows_append: "rows (xs @ ys) = rows xs @ rows ys"
  by (simp add: rows_def List.map_filter_def)

lemma writes_append: "writes (xs @ ys) = writes xs @ writes ys"
  by (simp add: writes_def List.map_filter_def)

lemma rows_processExecution:
  "rows (processExecution mi wr sm dir e) =
     [(ExecutionArn e, Status e, StartTime e, EndTime e, Duration e)]"
  by (simp add: processExecution_def rows_def List.map_filter_def Let_def
        split: sum.splits option.splits)

lemma writes_processExecution:
  "mi e = Inr data \<Longrightarrow>
   writes (processExecution mi wr sm dir e) =
     (if ExecutionArn e \<noteq> ''N/A''
      then [(dir, executionFileName (sm_Name sm) (ExecutionArn e), data)] else [])"
  by (simp add: processExecution_def writes_def List.map_filter_def Let_def
        split: option.splits)

lemma rows_concat:
  "rows (concat (map (processExecution mi wr sm dir) es)) =
     map (\<lambda>e. (ExecutionArn e, Status e, StartTime e, EndTime e, Duration e)) es"
  by (induction es) (simp_all add: rows_append rows_processExecution, simp add: rows_def List.map_filter_def)

lemma writes_concat:
  "\<forall>e\<in>set es. \<exists>data. mi e = Inr data \<Longrightarrow>
   writes (concat (map (processExecution mi wr sm dir) es)) =
     map (\<lambda>e. (dir, executionFileName (sm_Name sm) (ExecutionArn e), projr (mi e)))
       (filter (\<lambda>e. ExecutionArn e \<noteq> ''N/A'') es)"
proof (induction es)
  case Nil
  then show ?case by (simp add: writes_def List.map_filter_def)
next
  case (Cons e es)
  from Cons.prems obtain data where d: "mi e = Inr data" by auto
  from Cons.prems have "\<forall>e\<in>set es. \<exists>data. mi e = Inr data" by simp
  from Cons.IH [OF this] d show ?case
    by (simp add: writes_append writes_processExecution)
qed

lemma sample_parse:
  "parseDefinition [''A''] (dsm_Definition sampleMachine) =
     Inr [makeState (''A'', Some (objectInterface [(''Type'', JString ''Pass''),
                                                   (''End'', JBool True)]))]"
  by (simp add: sampleMachine_def parseDefinition_def Unmarshal_aslDef_def decodeStruct_def
        decodeField_def isStatesField_States isStatesField_StartAt decodeStates_Cons
        decodeStates_Nil decodeState_def range_map_Cons range_map_Nil)

section \<open>The claims about executions and definitions\<close>

subsection \<open>One record for each execution ARN\<close>

lemma dom_two_starts:
  "dom (correlateAll [event ''ExecutionStarted'' ''X'' 1000, event ''ExecutionStarted'' ''X'' 5000])
   = {''X''}"
  by (rule set_eqI) (auto simp only: correlateAll_dom isStart_event list.set insert_iff empty_iff bex_simps simp_thms)

text \<open>
  Claim C10. Whatever the sequence of log messages, the records that the correlation
  returns have pairwise distinct execution ARNs, and the start time of each record is
  the time stamp of the first \<^verbatim>\<open>ExecutionStarted\<close> event of its ARN in the sequence:
  a later start event of the same ARN neither resets the start time nor adds a record.
\<close>

theorem express_one_record_per_arn:
  assumes "range_order (correlateAll events) ks"
  shows "distinct (map ExecutionArn (correlated events ks)) \<and>
         (\<forall>r\<in>set (correlated events ks).
            \<exists>ev. firstStart (ExecutionArn r) events = Some (Inr ev) \<and> StartTime r = stamp ev)"
proof
  from assms show "distinct (map ExecutionArn (correlated events ks))"
    by (simp add: correlated_arns range_order_def)
next
  show "\<forall>r\<in>set (correlated events ks).
          \<exists>ev. firstStart (ExecutionArn r) events = Some (Inr ev) \<and> StartTime r = stamp ev"
  proof
    fix r assume "r \<in> set (correlated events ks)"
    then obtain k where k: "correlateAll events k = Some r"
      by (auto simp: correlated_set)
    with correlateAll_keyed [of events] have "ExecutionArn r = k"
      by (simp add: keyed_def)
    with k correlateAll_first_start [of events k r]
    show "\<exists>ev. firstStart (ExecutionArn r) events = Some (Inr ev) \<and> StartTime r = stamp ev"
      by simp
  qed
qed

theorem express_one_record_per_arn_witness:
  "range_order
     (correlateAll [event ''ExecutionStarted'' ''X'' 1000, event ''ExecutionStarted'' ''X'' 5000])
     [''X''] \<and>
   correlated [event ''ExecutionStarted'' ''X'' 1000, event ''ExecutionStarted'' ''X'' 5000] [''X'']
     = [\<lparr>ExecutionArn = ''X'', Status = ''RUNNING'', StartTime = RFC3339 1,
         EndTime = EmptyString, Duration = ''N/A''\<rparr>] \<and>
   distinct (map ExecutionArn
     (correlated [event ''ExecutionStarted'' ''X'' 1000, event ''ExecutionStarted'' ''X'' 5000]
        [''X''])) \<and>
   firstStart ''X'' [event ''ExecutionStarted'' ''X'' 1000, event ''ExecutionStarted'' ''X'' 5000]
     = Some (event ''ExecutionStarted'' ''X'' 1000) \<and>
   (\<exists>ev. event ''ExecutionStarted'' ''X'' 1000 = Inr ev \<and> stamp ev = RFC3339 1)"
proof -
  let ?evs = "[event ''ExecutionStarted'' ''X'' 1000, event ''ExecutionStarted'' ''X'' 5000]"
  let ?r = "\<lparr>ExecutionArn = ''X'', Status = ''RUNNING'', StartTime = RFC3339 1,
         EndTime = EmptyString, Duration = ''N/A''\<rparr>"
  have o: "range_order (correlateAll ?evs) [''X'']"
    by (simp add: range_order_def dom_two_starts)
  have v: "correlated ?evs [''X''] = [?r]"
    by (simp add: correlated_def range_map_Cons range_map_Nil correlateAll_def correlate_event)
  have fs: "firstStart ''X'' ?evs = Some (event ''ExecutionStarted'' ''X'' 1000)"
    by (simp add: firstStart_def isStart_event)
  note t = express_one_record_per_arn [OF o]
  from t have d: "distinct (map ExecutionArn (correlated ?evs [''X'']))"
    by (rule conjunct1)
  from t have "\<forall>r\<in>set (correlated ?evs [''X'']).
      \<exists>ev. firstStart (ExecutionArn r) ?evs = Some (Inr ev) \<and> StartTime r = stamp ev"
    by (rule conjunct2)
  then have "\<exists>ev. firstStart (ExecutionArn ?r) ?evs = Some (Inr ev) \<and> StartTime ?r = stamp ev"
    unfolding v by simp
  then obtain ev where ev: "firstStart ''X'' ?evs = Some (Inr ev)" "stamp ev = RFC3339 1"
    by auto
  from ev(1) fs have "event ''ExecutionStarted'' ''X'' 1000 = Inr ev"
    by simp
  with ev(2) have "\<exists>ev. event ''ExecutionStarted'' ''X'' 1000 = Inr ev \<and> stamp ev = RFC3339 1"
    by blast
  with o v d fs show ?thesis
    by (intro conjI)
qed

subsection \<open>Events that are ignored and events that overwrite\<close>

text \<open>
  Claim C1, as the code has it. An execution ARN \<open>Y\<close> for which the sequence holds no
  \<^verbatim>\<open>ExecutionStarted\<close> event has no entry in the correlation map and no record in
  the result, whatever other events of \<open>Y\<close> arrive. Once \<open>X\<close> has a record, the
  events that follow leave it as it is as long as none of them is a closing event of
  \<open>X\<close>; further start events of \<open>X\<close> are among these. A closing event of \<open>X\<close>,
  however, is applied to the record whether or not it was closed before: status, end
  time and duration are overwritten, the ARN and the start time stay.
\<close>

theorem express_ignored_or_overwritten:
  "((\<forall>msg\<in>set events. \<not> isStart Y msg) \<longrightarrow>
      correlateAll events Y = None \<and> (\<forall>r\<in>set (correlated events ks). ExecutionArn r \<noteq> Y)) \<and>
   (correlateAll events X = Some r \<longrightarrow> (\<forall>msg\<in>set later. \<not> isClose X msg) \<longrightarrow>
      correlateAll (events @ later) X = Some r) \<and>
   (correlateAll events X = Some r \<longrightarrow> isClose X (Inr ev) \<longrightarrow>
      correlateAll (events @ [Inr ev]) X =
        Some (r\<lparr>Status := Replace1 (EventType ev) ''Execution'' [],
                EndTime := stamp ev,
                Duration := durationOf (StartTime r) (stamp ev)\<rparr>))"
proof (intro conjI impI)
  assume a: "\<forall>msg\<in>set events. \<not> isStart Y msg"
  then have "Y \<notin> dom (correlateAll events)"
    by (simp add: correlateAll_dom)
  then show n: "correlateAll events Y = None" by blast
  show "\<forall>r\<in>set (correlated events ks). ExecutionArn r \<noteq> Y"
  proof
    fix r assume "r \<in> set (correlated events ks)"
    then obtain k where k: "correlateAll events k = Some r"
      by (auto simp: correlated_set)
    with correlateAll_keyed [of events] have "ExecutionArn r = k"
      by (simp add: keyed_def)
    with k n show "ExecutionArn r \<noteq> Y" by auto
  qed
next
  assume "correlateAll events X = Some r" "\<forall>msg\<in>set later. \<not> isClose X msg"
  with foldl_correlate_stable [of "correlateAll events" X r later]
  show "correlateAll (events @ later) X = Some r"
    by (simp add: correlateAll_def)
next
  assume "correlateAll events X = Some r" "isClose X (Inr ev)"
  then show "correlateAll (events @ [Inr ev]) X =
        Some (r\<lparr>Status := Replace1 (EventType ev) ''Execution'' [],
                EndTime := stamp ev,
                Duration := durationOf (StartTime r) (stamp ev)\<rparr>)"
    by (simp add: correlateAll_snoc correlate_close_some)
qed

text \<open>
  The claim as the specification words it says that a closed record is left unchanged
  by later lifecycle events. It is not: after a start and a success event the record
  of \<^verbatim>\<open>X\<close> is closed with status \<^verbatim>\<open>Succeeded\<close> and end time 1 s, and a failure
  event that follows replaces status, end time and duration.
\<close>

theorem express_ignored_or_overwritten_counterexample:
  "correlated [event ''ExecutionStarted'' ''X'' 0, event ''ExecutionSucceeded'' ''X'' 1000] [''X'']
     = [\<lparr>ExecutionArn = ''X'', Status = ''Succeeded'', StartTime = RFC3339 0,
         EndTime = RFC3339 1, Duration = ''1s''\<rparr>] \<and>
   correlated [event ''ExecutionStarted'' ''X'' 0, event ''ExecutionSucceeded'' ''X'' 1000,
               event ''ExecutionFailed'' ''X'' 2000] [''X'']
     = [\<lparr>ExecutionArn = ''X'', Status = ''Failed'', StartTime = RFC3339 0,
         EndTime = RFC3339 2, Duration = ''2s''\<rparr>]"
  by (simp add: express_eval)

theorem express_ignored_or_overwritten_witness:
  "\<not> isStart ''Y'' (event ''ExecutionStarted'' ''X'' 0) \<and>
   \<not> isStart ''Y'' (event ''ExecutionSucceeded'' ''X'' 1000) \<and>
   correlateAll [event ''ExecutionStarted'' ''X'' 0, event ''ExecutionSucceeded'' ''X'' 1000] ''Y''
     = None \<and>
   correlated [event ''ExecutionStarted'' ''X'' 0, event ''ExecutionSucceeded'' ''X'' 1000] [''X'']
     = [\<lparr>ExecutionArn = ''X'', Status = ''Succeeded'', StartTime = RFC3339 0,
         EndTime = RFC3339 1, Duration = ''1s''\<rparr>] \<and>
   ExecutionArn \<lparr>ExecutionArn = ''X'', Status = ''Succeeded'', StartTime = RFC3339 0,
                  EndTime = RFC3339 1, Duration = ''1s''\<rparr> \<noteq> ''Y'' \<and>
   correlateAll [event ''ExecutionStarted'' ''X'' 0, event ''ExecutionSucceeded'' ''X'' 1000] ''X''
     = Some \<lparr>ExecutionArn = ''X'', Status = ''Succeeded'', StartTime = RFC3339 0,
             EndTime = RFC3339 1, Duration = ''1s''\<rparr> \<and>
   \<not> isClose ''X'' (event ''ExecutionStarted'' ''X'' 7000) \<and>
   \<not> isClose ''X'' (event ''ExecutionFailed'' ''Y'' 8000) \<and>
   correlateAll
     ([event ''ExecutionStarted'' ''X'' 0, event ''ExecutionSucceeded'' ''X'' 1000] @
      [event ''ExecutionStarted'' ''X'' 7000, event ''ExecutionFailed'' ''Y'' 8000]) ''X''
     = Some \<lparr>ExecutionArn = ''X'', Status = ''Succeeded'', StartTime = RFC3339 0,
             EndTime = RFC3339 1, Duration = ''1s''\<rparr> \<and>
   isClose ''X'' (event ''ExecutionFailed'' ''X'' 2000) \<and>
   correlateAll
     ([event ''ExecutionStarted'' ''X'' 0, event ''ExecutionSucceeded'' ''X'' 1000] @
      [event ''ExecutionFailed'' ''X'' 2000]) ''X''
     = Some \<lparr>ExecutionArn = ''X'', Status = ''Failed'', StartTime = RFC3339 0,
             EndTime = RFC3339 2, Duration = ''2s''\<rparr>"
proof -
  let ?evs = "[event ''ExecutionStarted'' ''X'' 0, event ''ExecutionSucceeded'' ''X'' 1000]"
  let ?later = "[event ''ExecutionStarted'' ''X'' 7000, event ''ExecutionFailed'' ''Y'' 8000]"
  let ?r = "\<lparr>ExecutionArn = ''X'', Status = ''Succeeded'', StartTime = RFC3339 0,
             EndTime = RFC3339 1, Duration = ''1s''\<rparr>"
  let ?ev = "\<lparr>EventType = ''ExecutionFailed'', log_ExecutionArn = ''X'', Timestamp = 2000,
              log_Status = []\<rparr>"
  have h1: "\<forall>msg\<in>set ?evs. \<not> isStart ''Y'' msg"
    by (simp add: isStart_event)
  have h2: "correlateAll ?evs ''X'' = Some ?r"
    by (simp add: express_eval)
  have h3: "\<forall>msg\<in>set ?later. \<not> isClose ''X'' msg"
    by (simp add: isClose_event)
  have h4: "isClose ''X'' (Inr ?ev)"
    by (simp add: isClose_def HasPrefix_def)
  have v: "correlated ?evs [''X''] = [?r]"
    by (simp add: express_eval)
  note t = express_ignored_or_overwritten
             [where events = ?evs and Y = "''Y''" and ks = "[''X'']" and X = "''X''" and r = ?r
                and later = ?later and ev = ?ev]
  from t h1 have a: "correlateAll ?evs ''Y'' = None"
    "\<forall>r\<in>set (correlated ?evs [''X'']). ExecutionArn r \<noteq> ''Y''"
    by blast+
  from t h2 h3 have b: "correlateAll (?evs @ ?later) ''X'' = Some ?r"
    by blast
  from t h2 h4 have "correlateAll (?evs @ [Inr ?ev]) ''X'' =
      Some (?r\<lparr>Status := Replace1 (EventType ?ev) ''Execution'' [],
               EndTime := stamp ?ev,
               Duration := durationOf (StartTime ?r) (stamp ?ev)\<rparr>)"
    by blast
  moreover have "?r\<lparr>Status := Replace1 (EventType ?ev) ''Execution'' [],
               EndTime := stamp ?ev,
               Duration := durationOf (StartTime ?r) (stamp ?ev)\<rparr> =
      \<lparr>ExecutionArn = ''X'', Status = ''Failed'', StartTime = RFC3339 0,
        EndTime = RFC3339 2, Duration = ''2s''\<rparr>"
    by (simp add: stamp_def Format_UnixMilli express_eval)
  ultimately have c: "correlateAll (?evs @ [event ''ExecutionFailed'' ''X'' 2000]) ''X'' =
      Some \<lparr>ExecutionArn = ''X'', Status = ''Failed'', StartTime = RFC3339 0,
             EndTime = RFC3339 2, Duration = ''2s''\<rparr>"
    by (simp only: event_def)
  from h4 have h4': "isClose ''X'' (event ''ExecutionFailed'' ''X'' 2000)"
    by (simp only: event_def)
  from a(2) have a2: "ExecutionArn ?r \<noteq> ''Y''"
    unfolding v by simp
  from h1 have h1': "\<not> isStart ''Y'' (event ''ExecutionStarted'' ''X'' 0)"
    "\<not> isStart ''Y'' (event ''ExecutionSucceeded'' ''X'' 1000)"
    by simp_all
  from h3 have h3': "\<not> isClose ''X'' (event ''ExecutionStarted'' ''X'' 7000)"
    "\<not> isClose ''X'' (event ''ExecutionFailed'' ''Y'' 8000)"
    by simp_all
  from h1' a(1) v a2 h2 h3' b h4' c show ?thesis
    by (intro conjI)
qed

subsection \<open>A start event followed by a success event\<close>

text \<open>
  Claim C2, as the code has it. Let the sequence hold a start event \<open>s\<close> of \<open>X\<close>
  that is the first start event of \<open>X\<close>, and later an \<^verbatim>\<open>ExecutionSucceeded\<close> event
  \<open>c\<close> of \<open>X\<close> after which no closing event of \<open>X\<close> arrives. Then the result holds
  exactly one record of \<open>X\<close>; its start and end times are the time stamps of \<open>s\<close> and
  \<open>c\<close> cut to whole seconds; and its duration is what Go computes from these two
  strings, which is the difference of the whole seconds when both years have four
  digits and the times are at most \<open>maxSeconds\<close> apart.
\<close>

theorem express_start_then_success:
  assumes events: "events = pre @ [Inr s] @ mid @ [Inr c] @ post"
    and s: "isStart X (Inr s)"
    and c: "log_ExecutionArn c = X" "EventType c = ''ExecutionSucceeded''"
    and pre: "\<forall>msg\<in>set pre. \<not> isStart X msg"
    and post: "\<forall>msg\<in>set post. \<not> isClose X msg"
    and ks: "range_order (correlateAll events) ks"
  shows "(\<exists>r. filter (\<lambda>r. ExecutionArn r = X) (correlated events ks) = [r] \<and>
              ExecutionArn r = X \<and> StartTime r = stamp s \<and> EndTime r = stamp c \<and>
              Duration r = durationOf (stamp s) (stamp c)) \<and>
         stamp s = RFC3339 (Timestamp s div 1000) \<and>
         stamp c = RFC3339 (Timestamp c div 1000) \<and>
         (fourDigitYear (Timestamp s div 1000) \<longrightarrow> fourDigitYear (Timestamp c div 1000) \<longrightarrow>
          \<bar>Timestamp c div 1000 - Timestamp s div 1000\<bar> \<le> maxSeconds \<longrightarrow>
          durationOf (stamp s) (stamp c) =
            Duration_String ((Timestamp c div 1000 - Timestamp s div 1000) * 1000000000))"
proof -
  let ?m1 = "correlateAll pre"
  let ?m2 = "correlate ?m1 (Inr s)"
  let ?m3 = "foldl correlate ?m2 mid"
  let ?m4 = "correlate ?m3 (Inr c)"
  let ?r = "\<lparr>ExecutionArn = X, Status = ''Succeeded'', StartTime = stamp s,
             EndTime = stamp c, Duration = durationOf (stamp s) (stamp c)\<rparr>"
  from pre have "X \<notin> dom ?m1"
    by (simp add: correlateAll_dom)
  then have "?m1 X = None" by blast
  with s have m2: "?m2 X = Some \<lparr>ExecutionArn = X, Status = ''RUNNING'', StartTime = stamp s,
                                  EndTime = EmptyString, Duration = ''N/A''\<rparr>"
    by (simp add: correlate_start_new)
  from foldl_correlate_keeps_start [of ?m2 X _ mid] m2 obtain r3 where
    r3: "?m3 X = Some r3" "StartTime r3 = stamp s" "ExecutionArn r3 = X"
    by auto
  from c have cl: "isClose X (Inr c)"
    by (simp add: isClose_def HasPrefix_def)
  from correlate_close_some [of X c ?m3 r3] cl c(2) r3
  have "?m4 X = Some (r3\<lparr>Status := ''Succeeded'', EndTime := stamp c,
                          Duration := durationOf (stamp s) (stamp c)\<rparr>)"
    by (simp add: Replace1_Succeeded)
  with r3 have m4: "?m4 X = Some ?r"
    by (simp add: closed_record)
  have "correlateAll events = foldl correlate ?m4 post"
    by (simp add: events correlateAll_def)
  with foldl_correlate_stable [of ?m4 X ?r post] m4 post have final: "correlateAll events X = Some ?r"
    by simp
  then have "X \<in> dom (correlateAll events)" by blast
  with ks have "X \<in> set ks" "distinct ks"
    by (simp_all add: range_order_def)
  with final have "filter (\<lambda>r. ExecutionArn r = X) (correlated events ks) = [?r]"
    by (simp add: correlated_filter)
  then have "\<exists>r. filter (\<lambda>r. ExecutionArn r = X) (correlated events ks) = [r] \<and>
              ExecutionArn r = X \<and> StartTime r = stamp s \<and> EndTime r = stamp c \<and>
              Duration r = durationOf (stamp s) (stamp c)"
    by (intro exI [of _ ?r]) simp
  moreover have st: "stamp s = RFC3339 (Timestamp s div 1000)" "stamp c = RFC3339 (Timestamp c div 1000)"
    by (simp_all add: stamp_def Format_UnixMilli)
  moreover have "fourDigitYear (Timestamp s div 1000) \<longrightarrow> fourDigitYear (Timestamp c div 1000) \<longrightarrow>
          \<bar>Timestamp c div 1000 - Timestamp s div 1000\<bar> \<le> maxSeconds \<longrightarrow>
          durationOf (stamp s) (stamp c) =
            Duration_String ((Timestamp c div 1000 - Timestamp s div 1000) * 1000000000)"
    unfolding st by (simp add: durationOf_seconds)
  ultimately show ?thesis by blast
qed

text \<open>
  The claim as the specification words it gives the duration
  \<open>success.timestamp - start.timestamp\<close>. For a start at 0 ms and a success at 1500 ms
  the one record has the duration \<^verbatim>\<open>1s\<close>, while the two time stamps are 1.5 s apart.
\<close>

theorem express_start_then_success_counterexample:
  "map (\<lambda>r. (ExecutionArn r, StartTime r, EndTime r, Duration r))
     (correlated [event ''ExecutionStarted'' ''X'' 0, event ''ExecutionSucceeded'' ''X'' 1500]
        [''X''])
     = [(''X'', RFC3339 0, RFC3339 1, ''1s'')] \<and>
   Duration_String (UnixMilli 1500 - UnixMilli 0) = ''1.5s'' \<and>
   ''1s'' \<noteq> ''1.5s''"
  by (simp add: express_eval UnixMilli_def)

theorem express_start_then_success_witness:
  "isStart ''X'' (event ''ExecutionStarted'' ''X'' 0) \<and>
   range_order
     (correlateAll [event ''ExecutionStarted'' ''X'' 0, event ''ExecutionSucceeded'' ''X'' 1500])
     [''X''] \<and>
   fourDigitYear (0 div 1000) \<and> fourDigitYear (1500 div 1000) \<and>
   \<bar>1500 div 1000 - 0 div 1000\<bar> \<le> maxSeconds \<and>
   (\<exists>r. filter (\<lambda>r. ExecutionArn r = ''X'')
          (correlated [event ''ExecutionStarted'' ''X'' 0, event ''ExecutionSucceeded'' ''X'' 1500]
             [''X'']) = [r] \<and>
        ExecutionArn r = ''X'' \<and> StartTime r = RFC3339 0 \<and> EndTime r = RFC3339 1 \<and>
        Duration r = ''1s'')"
proof -
  let ?s = "\<lparr>EventType = ''ExecutionStarted'', log_ExecutionArn = ''X'', Timestamp = 0,
             log_Status = []\<rparr>"
  let ?c = "\<lparr>EventType = ''ExecutionSucceeded'', log_ExecutionArn = ''X'', Timestamp = 1500,
             log_Status = []\<rparr>"
  let ?evs = "[event ''ExecutionStarted'' ''X'' 0, event ''ExecutionSucceeded'' ''X'' 1500]"
  have e: "?evs = [] @ [Inr ?s] @ [] @ [Inr ?c] @ []"
    by (simp add: event_def)
  have s: "isStart ''X'' (Inr ?s)"
    by (simp add: isStart_def)
  have d: "dom (correlateAll ?evs) = {''X''}"
    by (rule set_eqI)
       (auto simp only: correlateAll_dom isStart_event list.set insert_iff empty_iff bex_simps
          simp_thms)
  then have o: "range_order (correlateAll ?evs) [''X'']"
    by (simp add: range_order_def)
  have y: "fourDigitYear (Timestamp ?s div 1000)" "fourDigitYear (Timestamp ?c div 1000)"
          "\<bar>Timestamp ?c div 1000 - Timestamp ?s div 1000\<bar> \<le> maxSeconds"
    by (simp_all add: fourDigitYear_def maxSeconds_def)
  have c1: "log_ExecutionArn ?c = ''X''" and c2: "EventType ?c = ''ExecutionSucceeded''"
    by simp_all
  have pre: "\<forall>msg\<in>set []. \<not> isStart ''X'' msg" and post: "\<forall>msg\<in>set []. \<not> isClose ''X'' msg"
    by simp_all
  note c0 = express_start_then_success [OF e s c1 c2 pre post o]
  from c0 [THEN conjunct1] obtain r where
    t: "filter (\<lambda>r. ExecutionArn r = ''X'') (correlated ?evs [''X'']) = [r] \<and>
        ExecutionArn r = ''X'' \<and> StartTime r = stamp ?s \<and> EndTime r = stamp ?c \<and>
        Duration r = durationOf (stamp ?s) (stamp ?c)" ..
  note t1 = t [THEN conjunct1]
  note t2 = t [THEN conjunct2, THEN conjunct1]
  note t3 = t [THEN conjunct2, THEN conjunct2, THEN conjunct1]
  note t4 = t [THEN conjunct2, THEN conjunct2, THEN conjunct2, THEN conjunct1]
  note t5 = t [THEN conjunct2, THEN conjunct2, THEN conjunct2, THEN conjunct2]
  note ts1 = c0 [THEN conjunct2, THEN conjunct1]
  note ts2 = c0 [THEN conjunct2, THEN conjunct2, THEN conjunct1]
  note td = c0 [THEN conjunct2, THEN conjunct2, THEN conjunct2, THEN mp, OF y(1), THEN mp, OF y(2),
                THEN mp, OF y(3)]
  have n: "Duration_String ((Timestamp ?c div 1000 - Timestamp ?s div 1000) * 1000000000) = ''1s''"
    by (simp add: duration_eval)
  from td n have td': "durationOf (stamp ?s) (stamp ?c) = ''1s''"
    by (rule trans)
  from t5 td' have u5: "Duration r = ''1s''"
    by (rule trans)
  from t3 ts1 have "StartTime r = RFC3339 (Timestamp ?s div 1000)"
    by (rule trans)
  then have u3: "StartTime r = RFC3339 0"
    by simp
  from t4 ts2 have "EndTime r = RFC3339 (Timestamp ?c div 1000)"
    by (rule trans)
  then have u4: "EndTime r = RFC3339 1"
    by simp
  have "\<exists>r. filter (\<lambda>r. ExecutionArn r = ''X'') (correlated ?evs [''X'']) = [r] \<and>
        ExecutionArn r = ''X'' \<and> StartTime r = RFC3339 0 \<and> EndTime r = RFC3339 1 \<and>
        Duration r = ''1s''"
    using t1 t2 u3 u4 u5 by (intro exI [of _ r] conjI)
  moreover have "isStart ''X'' (event ''ExecutionStarted'' ''X'' 0)"
    by (simp add: isStart_event)
  moreover from y have "fourDigitYear (0 div 1000)" "fourDigitYear (1500 div 1000)"
    "\<bar>1500 div 1000 - 0 div 1000\<bar> \<le> maxSeconds"
    by simp_all
  ultimately show ?thesis
    using o by (intro conjI)
qed

subsection \<open>The record of a STANDARD execution\<close>

text \<open>
  Claim C6, as the code has it. When \<^verbatim>\<open>getExecutions\<close> returns, its records are those
  of the executions whose describe call succeeded, in the order listed. For an
  execution with a stop date the end time of the record is the stop date cut to whole
  seconds, and the duration is what Go computes from the two formatted strings: the
  difference of stop and start in whole seconds when both years have four digits and
  the two are at most \<open>maxSeconds\<close> apart; that difference is not negative when the
  stop date is not before the start date. For an execution without a stop date the
  end time is empty and the duration is \<^verbatim>\<open>N/A\<close>. In both cases the status is the status
  of the describe call, unchanged.
\<close>

theorem standard_execution_record:
  "(getExecutions f arn = Inr xs \<longrightarrow>
      xs = map describedExecution (described f (listed (ListExecutions f arn)))) \<and>
   (dex_StopDate d = Some stop \<longrightarrow>
      describedExecution d =
        \<lparr>ExecutionArn = dex_ExecutionArn d, Status = dex_Status d,
         StartTime = RFC3339 (dex_StartDate d div 1000000000),
         EndTime = RFC3339 (stop div 1000000000),
         Duration = durationOf (RFC3339 (dex_StartDate d div 1000000000))
                      (RFC3339 (stop div 1000000000))\<rparr> \<and>
      (fourDigitYear (dex_StartDate d div 1000000000) \<longrightarrow>
       fourDigitYear (stop div 1000000000) \<longrightarrow>
       \<bar>stop div 1000000000 - dex_StartDate d div 1000000000\<bar> \<le> maxSeconds \<longrightarrow>
       durationOf (RFC3339 (dex_StartDate d div 1000000000)) (RFC3339 (stop div 1000000000)) =
         Duration_String
           ((stop div 1000000000 - dex_StartDate d div 1000000000) * 1000000000)) \<and>
      (dex_StartDate d \<le> stop \<longrightarrow>
         0 \<le> stop div 1000000000 - dex_StartDate d div 1000000000)) \<and>
   (dex_StopDate running = None \<longrightarrow>
      describedExecution running =
        \<lparr>ExecutionArn = dex_ExecutionArn running, Status = dex_Status running,
         StartTime = RFC3339 (dex_StartDate running div 1000000000),
         EndTime = EmptyString, Duration = ''N/A''\<rparr>)"
proof (intro conjI impI)
  assume "getExecutions f arn = Inr xs"
  then show "xs = map describedExecution (described f (listed (ListExecutions f arn)))"
    by (rule getExecutions_eq)
next
  assume "dex_StopDate d = Some stop"
  then show "describedExecution d =
        \<lparr>ExecutionArn = dex_ExecutionArn d, Status = dex_Status d,
         StartTime = RFC3339 (dex_StartDate d div 1000000000),
         EndTime = RFC3339 (stop div 1000000000),
         Duration = durationOf (RFC3339 (dex_StartDate d div 1000000000))
                      (RFC3339 (stop div 1000000000))\<rparr>"
    by (simp add: describedExecution_stopped Format_seconds)
next
  assume "fourDigitYear (dex_StartDate d div 1000000000)" "fourDigitYear (stop div 1000000000)"
    "\<bar>stop div 1000000000 - dex_StartDate d div 1000000000\<bar> \<le> maxSeconds"
  then show "durationOf (RFC3339 (dex_StartDate d div 1000000000)) (RFC3339 (stop div 1000000000)) =
         Duration_String
           ((stop div 1000000000 - dex_StartDate d div 1000000000) * 1000000000)"
    by (rule durationOf_seconds)
next
  assume "dex_StartDate d \<le> stop"
  then have "dex_StartDate d div 1000000000 \<le> stop div 1000000000"
    by (simp add: zdiv_mono1)
  then show "0 \<le> stop div 1000000000 - dex_StartDate d div 1000000000"
    by simp
next
  assume "dex_StopDate running = None"
  then show "describedExecution running =
        \<lparr>ExecutionArn = dex_ExecutionArn running, Status = dex_Status running,
         StartTime = RFC3339 (dex_StartDate running div 1000000000),
         EndTime = EmptyString, Duration = ''N/A''\<rparr>"
    by (simp add: describedExecution_running Format_seconds)
qed

text \<open>
  The claim as the specification words it makes the duration \<open>stop - start\<close>. An
  execution that ran from 10.9 s to 11.1 s gets the duration \<^verbatim>\<open>1s\<close>, while stop minus
  start is 200 ms.
\<close>

theorem standard_execution_record_counterexample:
  "getExecutions sampleFetcher ''arn:m'' =
     Inr [\<lparr>ExecutionArn = ''e1'', Status = ''SUCCEEDED'', StartTime = RFC3339 10,
           EndTime = RFC3339 11, Duration = ''1s''\<rparr>,
          \<lparr>ExecutionArn = ''e3'', Status = ''RUNNING'', StartTime = RFC3339 20,
           EndTime = EmptyString, Duration = ''N/A''\<rparr>] \<and>
   DescribeExecution sampleFetcher ''e1'' =
     Inr \<lparr>dex_ExecutionArn = ''e1'', dex_Status = ''SUCCEEDED'',
          dex_StartDate = 10900000000, dex_StopDate = Some 11100000000\<rparr> \<and>
   Duration_String (11100000000 - 10900000000) = ''200ms'' \<and>
   ''1s'' \<noteq> ''200ms''"
  by (simp add: sample_getExecutions) (simp add: sampleFetcher_def duration_eval)

theorem standard_execution_record_witness:
  "getExecutions sampleFetcher ''arn:m'' =
     Inr [\<lparr>ExecutionArn = ''e1'', Status = ''SUCCEEDED'', StartTime = RFC3339 10,
           EndTime = RFC3339 11, Duration = ''1s''\<rparr>,
          \<lparr>ExecutionArn = ''e3'', Status = ''RUNNING'', StartTime = RFC3339 20,
           EndTime = EmptyString, Duration = ''N/A''\<rparr>] \<and>
   [\<lparr>ExecutionArn = ''e1'', Status = ''SUCCEEDED'', StartTime = RFC3339 10,
           EndTime = RFC3339 11, Duration = ''1s''\<rparr>,
          \<lparr>ExecutionArn = ''e3'', Status = ''RUNNING'', StartTime = RFC3339 20,
           EndTime = EmptyString, Duration = ''N/A''\<rparr>] =
     map describedExecution
       (described sampleFetcher (listed (ListExecutions sampleFetcher ''arn:m''))) \<and>
   fourDigitYear (10900000000 div 1000000000) \<and>
   fourDigitYear (11100000000 div 1000000000) \<and>
   \<bar>11100000000 div 1000000000 - 10900000000 div 1000000000\<bar> \<le> maxSeconds \<and>
   (10900000000::int) \<le> 11100000000 \<and>
   describedExecution
     \<lparr>dex_ExecutionArn = ''e1'', dex_Status = ''SUCCEEDED'',
      dex_StartDate = 10900000000, dex_StopDate = Some 11100000000\<rparr> =
     \<lparr>ExecutionArn = ''e1'', Status = ''SUCCEEDED'', StartTime = RFC3339 10,
      EndTime = RFC3339 11, Duration = ''1s''\<rparr> \<and>
   (0::int) \<le> 11100000000 div 1000000000 - 10900000000 div 1000000000 \<and>
   describedExecution
     \<lparr>dex_ExecutionArn = ''e3'', dex_Status = ''RUNNING'',
      dex_StartDate = 20000000000, dex_StopDate = None\<rparr> =
     \<lparr>ExecutionArn = ''e3'', Status = ''RUNNING'', StartTime = RFC3339 20,
      EndTime = EmptyString, Duration = ''N/A''\<rparr>"
proof -
  let ?d1 = "\<lparr>dex_ExecutionArn = ''e1'', dex_Status = ''SUCCEEDED'',
              dex_StartDate = 10900000000, dex_StopDate = Some 11100000000\<rparr>"
  let ?d3 = "\<lparr>dex_ExecutionArn = ''e3'', dex_Status = ''RUNNING'',
              dex_StartDate = 20000000000, dex_StopDate = None\<rparr>"
  let ?xs = "[\<lparr>ExecutionArn = ''e1'', Status = ''SUCCEEDED'', StartTime = RFC3339 10,
           EndTime = RFC3339 11, Duration = ''1s''\<rparr>,
          \<lparr>ExecutionArn = ''e3'', Status = ''RUNNING'', StartTime = RFC3339 20,
           EndTime = EmptyString, Duration = ''N/A''\<rparr>]"
  note t = standard_execution_record
             [where f = sampleFetcher and arn = "''arn:m''" and xs = ?xs and d = ?d1
                and stop = 11100000000 and running = ?d3]
  have h0: "getExecutions sampleFetcher ''arn:m'' = Inr ?xs"
    by (rule sample_getExecutions)
  have h1: "dex_StopDate ?d1 = Some 11100000000" and h3: "dex_StopDate ?d3 = None"
    by simp_all
  have y: "fourDigitYear (dex_StartDate ?d1 div 1000000000)"
    "fourDigitYear (11100000000 div 1000000000)"
    "\<bar>11100000000 div 1000000000 - dex_StartDate ?d1 div 1000000000\<bar> \<le> maxSeconds"
    "dex_StartDate ?d1 \<le> 11100000000"
    by (simp_all add: fourDigitYear_def maxSeconds_def)
  note tB = t [THEN conjunct2, THEN conjunct1, THEN mp, OF h1]
  from t [THEN conjunct1, THEN mp, OF h0] have a: "?xs = map describedExecution
       (described sampleFetcher (listed (ListExecutions sampleFetcher ''arn:m'')))" .
  from tB [THEN conjunct1] have b: "describedExecution ?d1 =
        \<lparr>ExecutionArn = dex_ExecutionArn ?d1, Status = dex_Status ?d1,
         StartTime = RFC3339 (dex_StartDate ?d1 div 1000000000),
         EndTime = RFC3339 (11100000000 div 1000000000),
         Duration = durationOf (RFC3339 (dex_StartDate ?d1 div 1000000000))
                      (RFC3339 (11100000000 div 1000000000))\<rparr>" .
  from tB [THEN conjunct2, THEN conjunct1, rule_format, OF y(1) y(2) y(3)] have c: "durationOf (RFC3339 (dex_StartDate ?d1 div 1000000000))
                      (RFC3339 (11100000000 div 1000000000)) =
         Duration_String
           ((11100000000 div 1000000000 - dex_StartDate ?d1 div 1000000000) * 1000000000)" .
  have n: "Duration_String
           ((11100000000 div 1000000000 - dex_StartDate ?d1 div 1000000000) * 1000000000) = ''1s''"
  proof -
    have "(11100000000 div 1000000000 - dex_StartDate ?d1 div 1000000000) * 1000000000 =
          (1000000000::int)"
      by simp
    moreover have "Duration_String 1000000000 = ''1s''"
      by (simp add: duration_eval)
    ultimately show ?thesis by (simp only:)
  qed
  from c n have c': "durationOf (RFC3339 (dex_StartDate ?d1 div 1000000000))
                      (RFC3339 (11100000000 div 1000000000)) = ''1s''"
    by (rule trans)
  from b have b': "describedExecution ?d1 =
     \<lparr>ExecutionArn = ''e1'', Status = ''SUCCEEDED'', StartTime = RFC3339 10,
      EndTime = RFC3339 11, Duration = ''1s''\<rparr>"
    unfolding c' by simp
  from tB [THEN conjunct2, THEN conjunct2, rule_format, OF y(4)]
  have d: "0 \<le> 11100000000 div 1000000000 - dex_StartDate ?d1 div 1000000000" .
  from t [THEN conjunct2, THEN conjunct2, THEN mp, OF h3] have e: "describedExecution ?d3 =
        \<lparr>ExecutionArn = dex_ExecutionArn ?d3, Status = dex_Status ?d3,
         StartTime = RFC3339 (dex_StartDate ?d3 div 1000000000),
         EndTime = EmptyString, Duration = ''N/A''\<rparr>" .
  then have e': "describedExecution ?d3 =
     \<lparr>ExecutionArn = ''e3'', Status = ''RUNNING'', StartTime = RFC3339 20,
      EndTime = EmptyString, Duration = ''N/A''\<rparr>"
    by simp
  from y have y': "fourDigitYear (10900000000 div 1000000000)"
    "fourDigitYear (11100000000 div 1000000000)"
    "\<bar>11100000000 div 1000000000 - 10900000000 div 1000000000\<bar> \<le> maxSeconds"
    "(10900000000::int) \<le> 11100000000"
    by simp_all
  from d have d': "(0::int) \<le> 11100000000 div 1000000000 - 10900000000 div 1000000000"
    by simp
  from h0 a y' b' d' e' show ?thesis
    by (intro conjI)
qed

subsection \<open>The invariant of an execution record\<close>

text \<open>
  Claim C4, as the code has it. For every record with a non-empty end time, from the
  STANDARD fetcher as from the EXPRESS correlation and for every order of the log
  events, the duration is what Go computes from the two time strings of the record:
  the rendering of end minus start, which is the difference of the whole seconds
  when both years have four digits and the times are at most \<open>maxSeconds\<close> apart. The
  end time is not before the start time in the records of a STANDARD workflow whose
  described executions all stop no earlier than they start, and in the records of an
  EXPRESS workflow whose log events carry time stamps that do not decrease along the
  sequence.
\<close>

theorem duration_matches_times:
  "(getExecutions f arn = Inr xs \<longrightarrow>
      (\<forall>r\<in>set xs. EndTime r \<noteq> EmptyString \<longrightarrow>
         Duration r = durationOf (StartTime r) (EndTime r))) \<and>
   (\<forall>r\<in>set (correlated events ks). EndTime r \<noteq> EmptyString \<longrightarrow>
      Duration r = durationOf (StartTime r) (EndTime r)) \<and>
   (fourDigitYear a \<longrightarrow> fourDigitYear b \<longrightarrow> \<bar>b - a\<bar> \<le> maxSeconds \<longrightarrow>
      durationOf (RFC3339 a) (RFC3339 b) = Duration_String ((b - a) * 1000000000)) \<and>
   (getExecutions f arn = Inr xs \<longrightarrow>
      (\<forall>d\<in>set (described f (listed (ListExecutions f arn))).
         \<forall>stop. dex_StopDate d = Some stop \<longrightarrow> dex_StartDate d \<le> stop) \<longrightarrow>
      (\<forall>r\<in>set xs. \<forall>s e. StartTime r = RFC3339 s \<longrightarrow> EndTime r = RFC3339 e \<longrightarrow> s \<le> e)) \<and>
   (sorted (map Timestamp (decoded events)) \<longrightarrow>
      (\<forall>r\<in>set (correlated events ks).
         \<forall>s e. StartTime r = RFC3339 s \<longrightarrow> EndTime r = RFC3339 e \<longrightarrow> s \<le> e))"
proof (intro conjI impI)
  assume "getExecutions f arn = Inr xs"
  then have "xs = map describedExecution (described f (listed (ListExecutions f arn)))"
    by (rule getExecutions_eq)
  then show "\<forall>r\<in>set xs. EndTime r \<noteq> EmptyString \<longrightarrow>
         Duration r = durationOf (StartTime r) (EndTime r)"
    using describedExecution_consistent by auto
next
  show "\<forall>r\<in>set (correlated events ks). EndTime r \<noteq> EmptyString \<longrightarrow>
      Duration r = durationOf (StartTime r) (EndTime r)"
    using correlateAll_consistent [of events] by (auto simp: correlated_set)
next
  assume "fourDigitYear a" "fourDigitYear b" "\<bar>b - a\<bar> \<le> maxSeconds"
  then show "durationOf (RFC3339 a) (RFC3339 b) = Duration_String ((b - a) * 1000000000)"
    by (rule durationOf_seconds)
next
  assume "getExecutions f arn = Inr xs"
    and o: "\<forall>d\<in>set (described f (listed (ListExecutions f arn))).
         \<forall>stop. dex_StopDate d = Some stop \<longrightarrow> dex_StartDate d \<le> stop"
  then have "xs = map describedExecution (described f (listed (ListExecutions f arn)))"
    by (simp add: getExecutions_eq)
  with o show "\<forall>r\<in>set xs. \<forall>s e. StartTime r = RFC3339 s \<longrightarrow> EndTime r = RFC3339 e \<longrightarrow> s \<le> e"
    using describedExecution_ordered by auto
next
  assume "sorted (map Timestamp (decoded events))"
  from correlateAll_ordered [OF this]
  show "\<forall>r\<in>set (correlated events ks).
         \<forall>s e. StartTime r = RFC3339 s \<longrightarrow> EndTime r = RFC3339 e \<longrightarrow> s \<le> e"
    by (auto simp: correlated_set)
qed

text \<open>
  The claim as the specification words it promises an end time not before the start
  time for every order of the events. A success event stamped 1000 ms that arrives
  after a start event stamped 5000 ms closes the record with an end time four seconds
  before its start time.
\<close>

theorem duration_matches_times_counterexample:
  "correlated [event ''ExecutionStarted'' ''X'' 5000, event ''ExecutionSucceeded'' ''X'' 1000] [''X'']
     = [\<lparr>ExecutionArn = ''X'', Status = ''Succeeded'', StartTime = RFC3339 5,
         EndTime = RFC3339 1, Duration = ''-4s''\<rparr>] \<and>
   RFC3339 1 \<noteq> EmptyString \<and> \<not> (5::int) \<le> 1"
  by (simp add: express_eval)

theorem duration_matches_times_witness:
  "getExecutions sampleFetcher ''arn:m'' =
     Inr [\<lparr>ExecutionArn = ''e1'', Status = ''SUCCEEDED'', StartTime = RFC3339 10,
           EndTime = RFC3339 11, Duration = ''1s''\<rparr>,
          \<lparr>ExecutionArn = ''e3'', Status = ''RUNNING'', StartTime = RFC3339 20,
           EndTime = EmptyString, Duration = ''N/A''\<rparr>] \<and>
   ''1s'' = durationOf (RFC3339 10) (RFC3339 11) \<and>
   correlated [event ''ExecutionStarted'' ''X'' 1000, event ''ExecutionSucceeded'' ''X'' 5000] [''X'']
     = [\<lparr>ExecutionArn = ''X'', Status = ''Succeeded'', StartTime = RFC3339 1,
         EndTime = RFC3339 5, Duration = ''4s''\<rparr>] \<and>
   ''4s'' = durationOf (RFC3339 1) (RFC3339 5) \<and>
   fourDigitYear 1 \<and> fourDigitYear 5 \<and> \<bar>5 - 1\<bar> \<le> maxSeconds \<and>
   durationOf (RFC3339 1) (RFC3339 5) = Duration_String ((5 - 1) * 1000000000) \<and>
   described sampleFetcher (listed (ListExecutions sampleFetcher ''arn:m'')) =
     [\<lparr>dex_ExecutionArn = ''e1'', dex_Status = ''SUCCEEDED'',
       dex_StartDate = 10900000000, dex_StopDate = Some 11100000000\<rparr>,
      \<lparr>dex_ExecutionArn = ''e3'', dex_Status = ''RUNNING'',
       dex_StartDate = 20000000000, dex_StopDate = None\<rparr>] \<and>
   (10900000000::int) \<le> 11100000000 \<and>
   (10::int) \<le> 11 \<and>
   sorted (map Timestamp
     (decoded [event ''ExecutionStarted'' ''X'' 1000, event ''ExecutionSucceeded'' ''X'' 5000])) \<and>
   (1::int) \<le> 5"
proof -
  let ?r1 = "\<lparr>ExecutionArn = ''e1'', Status = ''SUCCEEDED'', StartTime = RFC3339 10,
           EndTime = RFC3339 11, Duration = ''1s''\<rparr>"
  let ?r3 = "\<lparr>ExecutionArn = ''e3'', Status = ''RUNNING'', StartTime = RFC3339 20,
           EndTime = EmptyString, Duration = ''N/A''\<rparr>"
  let ?rx = "\<lparr>ExecutionArn = ''X'', Status = ''Succeeded'', StartTime = RFC3339 1,
         EndTime = RFC3339 5, Duration = ''4s''\<rparr>"
  let ?evs = "[event ''ExecutionStarted'' ''X'' 1000, event ''ExecutionSucceeded'' ''X'' 5000]"
  note t = duration_matches_times
             [where f = sampleFetcher and arn = "''arn:m''" and xs = "[?r1, ?r3]"
                and events = ?evs and ks = "[''X'']" and a = 1 and b = 5]
  have h0: "getExecutions sampleFetcher ''arn:m'' = Inr [?r1, ?r3]"
    by (rule sample_getExecutions)
  have v: "correlated ?evs [''X''] = [?rx]"
    by (simp add: express_eval)
  have y: "fourDigitYear 1" "fourDigitYear 5" "\<bar>5 - 1\<bar> \<le> maxSeconds"
    by (simp_all add: fourDigitYear_def maxSeconds_def)
  have ds: "described sampleFetcher (listed (ListExecutions sampleFetcher ''arn:m'')) =
     [\<lparr>dex_ExecutionArn = ''e1'', dex_Status = ''SUCCEEDED'',
       dex_StartDate = 10900000000, dex_StopDate = Some 11100000000\<rparr>,
      \<lparr>dex_ExecutionArn = ''e3'', dex_Status = ''RUNNING'',
       dex_StartDate = 20000000000, dex_StopDate = None\<rparr>]"
    by (simp only: sample_listed sample_described)
  have ho: "\<forall>d\<in>set (described sampleFetcher (listed (ListExecutions sampleFetcher ''arn:m''))).
         \<forall>stop. dex_StopDate d = Some stop \<longrightarrow> dex_StartDate d \<le> stop"
    unfolding ds by simp
  have hs: "sorted (map Timestamp (decoded ?evs))"
    by (simp add: decoded_def event_def List.map_filter_simps)
  from t [THEN conjunct1, THEN mp, OF h0]
  have "EndTime ?r1 \<noteq> EmptyString \<longrightarrow> Duration ?r1 = durationOf (StartTime ?r1) (EndTime ?r1)"
    by simp
  then have c1: "''1s'' = durationOf (RFC3339 10) (RFC3339 11)"
    by simp
  from t [THEN conjunct2, THEN conjunct1]
  have "EndTime ?rx \<noteq> EmptyString \<longrightarrow> Duration ?rx = durationOf (StartTime ?rx) (EndTime ?rx)"
    unfolding v by simp
  then have c2: "''4s'' = durationOf (RFC3339 1) (RFC3339 5)"
    by simp
  from t [THEN conjunct2, THEN conjunct2, THEN conjunct1, rule_format, OF y]
  have c3: "durationOf (RFC3339 1) (RFC3339 5) = Duration_String ((5 - 1) * 1000000000)" .
  from t [THEN conjunct2, THEN conjunct2, THEN conjunct2, THEN conjunct1, THEN mp, OF h0,
          THEN mp, OF ho]
  have "\<forall>s e. StartTime ?r1 = RFC3339 s \<longrightarrow> EndTime ?r1 = RFC3339 e \<longrightarrow> s \<le> e"
    by simp
  then have c4: "(10::int) \<le> 11"
    by simp
  from t [THEN conjunct2, THEN conjunct2, THEN conjunct2, THEN conjunct2, THEN mp, OF hs]
  have "\<forall>s e. StartTime ?rx = RFC3339 s \<longrightarrow> EndTime ?rx = RFC3339 e \<longrightarrow> s \<le> e"
    unfolding v by simp
  then have c5: "(1::int) \<le> 5"
    by simp
  have le: "(10900000000::int) \<le> 11100000000"
    by simp
  from h0 c1 v c2 y c3 ds le c4 hs c5 show ?thesis
    by (intro conjI)
qed

subsection \<open>One entry for each state\<close>




subsection \<open>When the parser fails\<close>




subsection \<open>An EXPRESS workflow without a log group\<close>

text \<open>
  Claim C8. An EXPRESS state machine whose logging configuration references no log
  group should get one record with the ARN \<^verbatim>\<open>N/A\<close> and the not-supported message in
  place of its executions. \<^verbatim>\<open>getExpressExecutions\<close> tests the missing configuration,
  the empty list of destinations and the missing ARN of the log group, and returns an
  error there, which the caller replaces by this record. It does not test the log
  group of the first destination itself: for the state machine \<open>sampleNoGroup\<close>,
  whose one destination has no log group, reading \<^verbatim>\<open>LogGroupArn\<close> dereferences
  the \<^verbatim>\<open>nil\<close> pointer, and the panic passes through \<^verbatim>\<open>fetchExecutions\<close> and
  \<^verbatim>\<open>getStateMachineDetails\<close>, so no record is substituted. With the log group present
  and its ARN missing, the same state machine gets the record.
\<close>

theorem express_nil_log_group_panics:
  "noLogGroup sampleNoGroup \<and>
   dsm_Type sampleNoGroup = ''EXPRESS'' \<and>
   dsm_LoggingConfiguration sampleNoGroup =
     Some \<lparr>Destinations = [\<lparr>CloudWatchLogsLogGroup = None\<rparr>]\<rparr> \<and>
   getExpressExecutions sampleNoGroupFetcher sampleNoGroup [] = Inl NilPointerDereference \<and>
   fetchExecutions sampleNoGroupFetcher ''arn:m'' sampleNoGroup [] = Inl NilPointerDereference \<and>
   DescribeStateMachine sampleNoGroupFetcher ''arn:m'' = Inr sampleNoGroup \<and>
   getStateMachineDetails sampleNoGroupFetcher ''arn:m'' [''A''] [] = Inl NilPointerDereference \<and>
   fetchExecutions sampleNoGroupFetcher ''arn:m''
     (sampleNoGroup\<lparr>dsm_LoggingConfiguration :=
        Some \<lparr>Destinations = [\<lparr>CloudWatchLogsLogGroup = Some \<lparr>LogGroupArn = None\<rparr>\<rparr>]\<rparr>\<rparr>) [] =
     Inr (Inr [\<lparr>ExecutionArn = ''N/A'',
                Status = ''Not supported (check CloudWatch Logs configuration)'',
                StartTime = EmptyString, EndTime = EmptyString, Duration = ''N/A''\<rparr>])"
proof -
  have p: "parseDefinition [''A''] (dsm_Definition sampleNoGroup) =
     Inr [makeState (''A'', Some (objectInterface [(''Type'', JString ''Pass''),
                                                   (''End'', JBool True)]))]"
    using sample_parse by (simp add: sampleNoGroup_def)
  have n: "noLogGroup sampleNoGroup"
    by (simp add: noLogGroup_def sampleNoGroup_def)
  have ty: "dsm_Type sampleNoGroup = ''EXPRESS''"
    by (simp add: sampleNoGroup_def sampleMachine_def)
  have conf: "dsm_LoggingConfiguration sampleNoGroup =
     Some \<lparr>Destinations = [\<lparr>CloudWatchLogsLogGroup = None\<rparr>]\<rparr>"
    by (simp add: sampleNoGroup_def)
  have g: "getExpressExecutions sampleNoGroupFetcher sampleNoGroup [] = Inl NilPointerDereference"
    by (simp add: getExpressExecutions_def conf)
  have f: "fetchExecutions sampleNoGroupFetcher ''arn:m'' sampleNoGroup [] =
             Inl NilPointerDereference"
    by (simp add: fetchExecutions_def ty g)
  have d: "DescribeStateMachine sampleNoGroupFetcher ''arn:m'' = Inr sampleNoGroup"
    by (simp add: sampleNoGroupFetcher_def)
  have m: "getStateMachineDetails sampleNoGroupFetcher ''arn:m'' [''A''] [] =
             Inl NilPointerDereference"
    by (simp add: getStateMachineDetails_def d p f)
  have h: "fetchExecutions sampleNoGroupFetcher ''arn:m''
     (sampleNoGroup\<lparr>dsm_LoggingConfiguration :=
        Some \<lparr>Destinations = [\<lparr>CloudWatchLogsLogGroup = Some \<lparr>LogGroupArn = None\<rparr>\<rparr>]\<rparr>\<rparr>) [] =
     Inr (Inr [\<lparr>ExecutionArn = ''N/A'',
                Status = ''Not supported (check CloudWatch Logs configuration)'',
                StartTime = EmptyString, EndTime = EmptyString, Duration = ''N/A''\<rparr>])"
    by (simp add: fetchExecutions_def getExpressExecutions_def ty sentinel_def)
  from n ty conf g f d m h show ?thesis
    by (intro conjI)
qed

subsection \<open>The files of the executions\<close>

text \<open>
  Claim C9. Let the encoder succeed on every execution of a state machine (as
  \<^verbatim>\<open>json.MarshalIndent\<close> does on a struct of strings). Then \<^verbatim>\<open>processExecutions\<close>
  calls \<^verbatim>\<open>os.WriteFile\<close> once for each execution whose ARN is not \<^verbatim>\<open>N/A\<close>, in order,
  with the file name of that execution and its encoding, and for no other execution;
  and every execution, the sentinel included, gets its row in the console table.
\<close>

theorem executions_persisted:
  assumes "\<forall>e\<in>set (sm_Executions sm). \<exists>data. MarshalIndent e = Inr data"
  shows "writes (processExecutions MarshalIndent WriteFile sm outputDir) =
           map (\<lambda>e. (outputDir, executionFileName (sm_Name sm) (ExecutionArn e),
                      projr (MarshalIndent e)))
             (filter (\<lambda>e. ExecutionArn e \<noteq> ''N/A'') (sm_Executions sm)) \<and>
         rows (processExecutions MarshalIndent WriteFile sm outputDir) =
           map (\<lambda>e. (ExecutionArn e, Status e, StartTime e, EndTime e, Duration e))
             (sm_Executions sm)"
proof
  have "writes [Print (''Executions for '' @ sm_Name sm @ '':''), Render, Print []] = []"
    by (simp add: writes_def List.map_filter_def)
  with writes_concat [OF assms]
  show "writes (processExecutions MarshalIndent WriteFile sm outputDir) =
           map (\<lambda>e. (outputDir, executionFileName (sm_Name sm) (ExecutionArn e),
                      projr (MarshalIndent e)))
             (filter (\<lambda>e. ExecutionArn e \<noteq> ''N/A'') (sm_Executions sm))"
    by (simp add: processExecutions_def writes_append)
next
  have "rows [Print (''Executions for '' @ sm_Name sm @ '':''), Render, Print []] = []"
    by (simp add: rows_def List.map_filter_def)
  then show "rows (processExecutions MarshalIndent WriteFile sm outputDir) =
           map (\<lambda>e. (ExecutionArn e, Status e, StartTime e, EndTime e, Duration e))
             (sm_Executions sm)"
    by (simp add: processExecutions_def rows_append rows_concat)
qed

theorem executions_persisted_witness:
  "sampleMarshal notSupported =
     Inr ''N/A Not supported (check CloudWatch Logs configuration)'' \<and>
   sampleMarshal
     \<lparr>ExecutionArn = ''arn:aws:states:exec/1'', Status = ''SUCCEEDED'',
      StartTime = RFC3339 10, EndTime = RFC3339 11, Duration = ''1s''\<rparr> =
     Inr ''arn:aws:states:exec/1 SUCCEEDED'' \<and>
   writes (processExecutions sampleMarshal sampleWriteFile
     \<lparr>sm_Name = ''m'', sm_ARN = ''arn:m'', sm_RoleARN = ''arn:role'', sm_Definition = None,
      sm_States = [],
      sm_Executions =
        [notSupported,
         \<lparr>ExecutionArn = ''arn:aws:states:exec/1'', Status = ''SUCCEEDED'',
          StartTime = RFC3339 10, EndTime = RFC3339 11, Duration = ''1s''\<rparr>],
      sm_CreationDate = RFC3339 0, sm_Type = ''EXPRESS''\<rparr> ''out'') =
     [(''out'', ''m_execution_arn_aws_states_exec_1.json'', ''arn:aws:states:exec/1 SUCCEEDED'')] \<and>
   rows (processExecutions sampleMarshal sampleWriteFile
     \<lparr>sm_Name = ''m'', sm_ARN = ''arn:m'', sm_RoleARN = ''arn:role'', sm_Definition = None,
      sm_States = [],
      sm_Executions =
        [notSupported,
         \<lparr>ExecutionArn = ''arn:aws:states:exec/1'', Status = ''SUCCEEDED'',
          StartTime = RFC3339 10, EndTime = RFC3339 11, Duration = ''1s''\<rparr>],
      sm_CreationDate = RFC3339 0, sm_Type = ''EXPRESS''\<rparr> ''out'') =
     [(''N/A'', ''Not supported (check CloudWatch Logs configuration)'', EmptyString,
       EmptyString, ''N/A''),
      (''arn:aws:states:exec/1'', ''SUCCEEDED'', RFC3339 10, RFC3339 11, ''1s'')]"
proof -
  let ?r = "\<lparr>ExecutionArn = ''arn:aws:states:exec/1'', Status = ''SUCCEEDED'',
          StartTime = RFC3339 10, EndTime = RFC3339 11, Duration = ''1s''\<rparr>"
  let ?sm = "\<lparr>sm_Name = ''m'', sm_ARN = ''arn:m'', sm_RoleARN = ''arn:role'', sm_Definition = None,
      sm_States = [], sm_Executions = [notSupported, ?r],
      sm_CreationDate = RFC3339 0, sm_Type = ''EXPRESS''\<rparr>"
  have m1: "sampleMarshal notSupported =
     Inr ''N/A Not supported (check CloudWatch Logs configuration)''"
    by (simp add: sampleMarshal_def notSupported_def sentinel_def)
  have m2: "sampleMarshal ?r = Inr ''arn:aws:states:exec/1 SUCCEEDED''"
    by (simp add: sampleMarshal_def)
  have h: "\<forall>e\<in>set (sm_Executions ?sm). \<exists>data. sampleMarshal e = Inr data"
    by (simp add: sampleMarshal_def)
  note t = executions_persisted [OF h, where WriteFile = sampleWriteFile and outputDir = "''out''"]
  have ns: "ExecutionArn notSupported = ''N/A''" "Status notSupported =
      ''Not supported (check CloudWatch Logs configuration)''"
    "StartTime notSupported = EmptyString" "EndTime notSupported = EmptyString"
    "Duration notSupported = ''N/A''"
    by (simp_all add: notSupported_def sentinel_def)
  have fn: "executionFileName ''m'' ''arn:aws:states:exec/1'' =
      ''m_execution_arn_aws_states_exec_1.json''"
    by (simp add: executionFileName_def sanitizeFileName_def invalidChars_def)
  from t [THEN conjunct1] have w:
    "writes (processExecutions sampleMarshal sampleWriteFile ?sm ''out'') =
       [(''out'', ''m_execution_arn_aws_states_exec_1.json'', ''arn:aws:states:exec/1 SUCCEEDED'')]"
    by (simp add: ns fn m2)
  from t [THEN conjunct2] have r:
    "rows (processExecutions sampleMarshal sampleWriteFile ?sm ''out'') =
     [(''N/A'', ''Not supported (check CloudWatch Logs configuration)'', EmptyString,
       EmptyString, ''N/A''),
      (''arn:aws:states:exec/1'', ''SUCCEEDED'', RFC3339 10, RFC3339 11, ''1s'')]"
    by (simp add: ns)
  from m1 m2 w r show ?thesis
    by (intro conjI)
qed

end
